theory Spec2Isabelle
  imports Complex_Main
begin

section \<open>Strings, errors and time\<close>

text \<open>
  The route handlers of the back end (\<^verbatim>\<open>routes/members.ts\<close>, the payments router and the
  dashboard router) and the list filters of the front end (\<^verbatim>\<open>MemberManagement.tsx\<close>) are
  embedded as functions over explicit tables. A JavaScript string is a \<^typ>\<open>string\<close>; an
  instant (\<^verbatim>\<open>Date\<close>) is its number of milliseconds since the epoch, an \<^typ>\<open>int\<close>, so that
  \<^verbatim>\<open>a <= b\<close> on two dates is \<open>\<le>\<close> on the integers. The enum columns of the database
  (status, membership type, gender) are the strings the TypeScript code writes and compares.
\<close>

text \<open>The error classes of \<^verbatim>\<open>middleware/errorHandler.ts\<close> that the routes throw.\<close>

datatype error =
    BadRequestError string
  | NotFoundError string
  | ConflictError string

fun statusCode :: "error \<Rightarrow> nat" where
  "statusCode (BadRequestError _) = 400"
| "statusCode (NotFoundError _) = 404"
| "statusCode (ConflictError _) = 409"

text \<open>
  \<^verbatim>\<open>String.prototype.toLowerCase\<close> on the ASCII letters (a \<^typ>\<open>char\<close> is one byte; letters
  outside ASCII are left as they are).
\<close>

definition lowerChar :: "char \<Rightarrow> char" where
  "lowerChar c =
     (let n = (of_char c :: nat)
      in if 65 \<le> n \<and> n \<le> 90 then char_of (n + 32) else c)"

definition toLowerCase :: "string \<Rightarrow> string" where
  "toLowerCase s = map lowerChar s"

text \<open>\<^verbatim>\<open>s.includes(t)\<close>: \<open>t\<close> occurs in \<open>s\<close> at some position.\<close>

fun includes_str :: "string \<Rightarrow> string \<Rightarrow> bool" where
  "includes_str [] t = (t = [])"
| "includes_str (c # cs) t = (take (length t) (c # cs) = t \<or> includes_str cs t)"

text \<open>The \<^verbatim>\<open>trim()\<close> sanitizer: white space removed at both ends.\<close>

definition isSpace :: "char \<Rightarrow> bool" where
  "isSpace c = ((of_char c :: nat) \<in> {9, 10, 11, 12, 13, 32})"

definition trim :: "string \<Rightarrow> string" where
  "trim s = rev (dropWhile isSpace (rev (dropWhile isSpace s)))"

text \<open>\<^verbatim>\<open>30 * 24 * 60 * 60 * 1000\<close> milliseconds.\<close>

definition thirtyDays :: int where
  "thirtyDays = 30 * 24 * 60 * 60 * 1000"

text \<open>
  A date field of a JSON body: missing, a string that \<^verbatim>\<open>isISO8601\<close> rejects, or an ISO 8601
  string, kept as the instant \<^verbatim>\<open>new Date(string)\<close> reads from it.
\<close>

datatype dateField = NoDate | BadDate | ISODate int

section \<open>Members\<close>

record member =
  mId :: string
  name :: string
  age :: int
  gender :: string
  email :: string
  phone :: string
  membershipType :: string
  expiryDate :: int
  status :: string
  profilePicture :: "string option"
  joinDate :: int

text \<open>
  The columns \<^verbatim>\<open>createdAt\<close> and \<^verbatim>\<open>updatedAt\<close>, which the database maintains, are left
  out. The members table is the list of its rows; \<^verbatim>\<open>findUnique\<close> reads by id or by
  email, and \<^verbatim>\<open>update\<close> rewrites the row of an id.
\<close>

type_synonym members = "member list"

definition findUniqueId :: "members \<Rightarrow> string \<Rightarrow> member option" where
  "findUniqueId ms i = find (\<lambda>m. mId m = i) ms"

definition findUniqueEmail :: "members \<Rightarrow> string \<Rightarrow> member option" where
  "findUniqueEmail ms e = find (\<lambda>m. email m = e) ms"

definition updateWhereId :: "members \<Rightarrow> string \<Rightarrow> (member \<Rightarrow> member) \<Rightarrow> members" where
  "updateWhereId ms i f = map (\<lambda>m. if mId m = i then f m else m) ms"

subsection \<open>Validation chains\<close>

text \<open>
  \<^verbatim>\<open>isEmail\<close> and \<^verbatim>\<open>normalizeEmail\<close> belong to the validator library; the handlers take
  them as the parameters \<open>isEmail\<close> and \<open>normalizeEmail\<close>. Each chain contributes its message
  when it fails (\<^verbatim>\<open>Invalid value\<close> where the chain has no \<^verbatim>\<open>withMessage\<close>), in the order of
  the array; the handler reports the first.
\<close>

definition genders :: "string list" where
  "genders = [''MALE'', ''FEMALE'', ''OTHER'']"

definition membershipTypes :: "string list" where
  "membershipTypes = [''ONE_MONTH'', ''THREE_MONTH'', ''SIX_MONTH'', ''ONE_YEAR'']"

definition statuses :: "string list" where
  "statuses = [''ACTIVE'', ''INACTIVE'', ''EXPIRING_SOON'', ''ARCHIVED'']"

text \<open>
  The body of \<^verbatim>\<open>POST /members\<close>: the fields the validator names, with \<open>age_b\<close> the
  integer sent, and the two further fields of a member the client sends. A \<^verbatim>\<open>status\<close> in
  the body is overwritten by the handler and is left out.
\<close>

record memberData =
  name_b :: string
  age_b :: int
  gender_b :: string
  email_b :: string
  phone_b :: string
  membershipType_b :: string
  expiryDate_b :: dateField
  profilePicture_b :: "string option"
  joinDate_b :: "int option"

definition validateMember :: "(string \<Rightarrow> bool) \<Rightarrow> memberData \<Rightarrow> string list" where
  "validateMember isEmail b =
     (if 2 \<le> length (trim (name_b b)) then [] else [''Name must be at least 2 characters'']) @
     (if 16 \<le> age_b b \<and> age_b b \<le> 100 then [] else [''Age must be between 16 and 100'']) @
     (if gender_b b \<in> set genders then [] else [''Invalid gender'']) @
     (if isEmail (email_b b) then [] else [''Invalid value'']) @
     (if 10 \<le> length (trim (phone_b b)) then []
      else [''Phone number must be at least 10 characters'']) @
     (if membershipType_b b \<in> set membershipTypes then [] else [''Invalid membership type'']) @
     (case expiryDate_b b of ISODate _ \<Rightarrow> [] | _ \<Rightarrow> [''Invalid expiry date''])"

text \<open>The body of \<^verbatim>\<open>PUT /members/:id\<close>: every field is optional.\<close>

record updateData =
  name_u :: "string option"
  age_u :: "int option"
  gender_u :: "string option"
  email_u :: "string option"
  phone_u :: "string option"
  membershipType_u :: "string option"
  expiryDate_u :: dateField
  status_u :: "string option"
  profilePicture_u :: "string option"

definition optionalCheck :: "'a option \<Rightarrow> ('a \<Rightarrow> bool) \<Rightarrow> string \<Rightarrow> string list" where
  "optionalCheck v ok msg = (case v of None \<Rightarrow> [] | Some x \<Rightarrow> if ok x then [] else [msg])"

definition validateMemberUpdate :: "(string \<Rightarrow> bool) \<Rightarrow> updateData \<Rightarrow> string list" where
  "validateMemberUpdate isEmail u =
     optionalCheck (name_u u) (\<lambda>v. 2 \<le> length (trim v)) ''Name must be at least 2 characters'' @
     optionalCheck (age_u u) (\<lambda>v. 16 \<le> v \<and> v \<le> 100) ''Age must be between 16 and 100'' @
     optionalCheck (gender_u u) (\<lambda>v. v \<in> set genders) ''Invalid gender'' @
     optionalCheck (email_u u) isEmail ''Invalid value'' @
     optionalCheck (phone_u u) (\<lambda>v. 10 \<le> length (trim v))
       ''Phone number must be at least 10 characters'' @
     optionalCheck (membershipType_u u) (\<lambda>v. v \<in> set membershipTypes)
       ''Invalid membership type'' @
     (case expiryDate_u u of BadDate \<Rightarrow> [''Invalid expiry date''] | _ \<Rightarrow> []) @
     optionalCheck (status_u u) (\<lambda>v. v \<in> set statuses) ''Invalid status''"

text \<open>\<^verbatim>\<open>throw new BadRequestError(firstError?.msg || 'Validation error')\<close>.\<close>

definition firstError :: "string list \<Rightarrow> error" where
  "firstError errors =
     (case errors of [] \<Rightarrow> BadRequestError ''Validation error''
      | msg # _ \<Rightarrow> BadRequestError (if msg = [] then ''Validation error'' else msg))"

subsection \<open>Create, update, delete\<close>

text \<open>
  A handler takes the table and returns the table after the request together with the
  response: \<open>Inl\<close> the error thrown, \<open>Inr\<close> the member sent back. \<open>now\<close> is
  \<^verbatim>\<open>new Date()\<close> and \<open>newId\<close> the id the database gives the new row.
\<close>

definition postMember ::
  "(string \<Rightarrow> bool) \<Rightarrow> (string \<Rightarrow> string) \<Rightarrow> int \<Rightarrow> string \<Rightarrow> members \<Rightarrow> memberData
     \<Rightarrow> members \<times> (error + member)" where
  "postMember isEmail normalizeEmail now newId ms b =
     (let errors = validateMember isEmail b in
      if errors \<noteq> [] then (ms, Inl (firstError errors))
      else
        let email' = normalizeEmail (email_b b) in
        case findUniqueEmail ms email' of
          Some existingMember \<Rightarrow> (ms, Inl (ConflictError ''Member with this email already exists''))
        | None \<Rightarrow>
            let expiry = (case expiryDate_b b of ISODate d \<Rightarrow> d | _ \<Rightarrow> 0);
                thirtyDaysFromNow = now + thirtyDays;
                status' = (if expiry \<le> now then ''INACTIVE''
                           else if expiry \<le> thirtyDaysFromNow then ''EXPIRING_SOON''
                           else ''ACTIVE'');
                m = \<lparr> mId = newId, name = trim (name_b b), age = age_b b, gender = gender_b b,
                      email = email', phone = trim (phone_b b),
                      membershipType = membershipType_b b, expiryDate = expiry,
                      status = status', profilePicture = profilePicture_b b,
                      joinDate = (case joinDate_b b of Some j \<Rightarrow> j | None \<Rightarrow> now) \<rparr>
            in (ms @ [m], Inr m))"

definition orElse :: "'a option \<Rightarrow> 'a \<Rightarrow> 'a" where
  "orElse v d = (case v of Some x \<Rightarrow> x | None \<Rightarrow> d)"

text \<open>\<^verbatim>\<open>prisma.member.update({ where: { id }, data: updateData })\<close>: the fields present are written.\<close>

definition applyUpdate :: "updateData \<Rightarrow> member \<Rightarrow> member" where
  "applyUpdate u m =
     m \<lparr> name := orElse (name_u u) (name m),
         age := orElse (age_u u) (age m),
         gender := orElse (gender_u u) (gender m),
         email := orElse (email_u u) (email m),
         phone := orElse (phone_u u) (phone m),
         membershipType := orElse (membershipType_u u) (membershipType m),
         expiryDate := (case expiryDate_u u of ISODate d \<Rightarrow> d | _ \<Rightarrow> expiryDate m),
         status := orElse (status_u u) (status m),
         profilePicture := (case profilePicture_u u of Some p \<Rightarrow> Some p
                            | None \<Rightarrow> profilePicture m) \<rparr>"

text \<open>The sanitizers of \<^verbatim>\<open>validateMemberUpdate\<close> rewrite the body before the handler reads it.\<close>

definition sanitizeUpdate :: "(string \<Rightarrow> string) \<Rightarrow> updateData \<Rightarrow> updateData" where
  "sanitizeUpdate normalizeEmail u =
     u \<lparr> name_u := map_option trim (name_u u),
         email_u := map_option normalizeEmail (email_u u),
         phone_u := map_option trim (phone_u u) \<rparr>"

definition putMember ::
  "(string \<Rightarrow> bool) \<Rightarrow> (string \<Rightarrow> string) \<Rightarrow> int \<Rightarrow> members \<Rightarrow> string \<Rightarrow> updateData
     \<Rightarrow> members \<times> (error + member)" where
  "putMember isEmail normalizeEmail now ms i body =
     (let errors = validateMemberUpdate isEmail body in
      if errors \<noteq> [] then (ms, Inl (firstError errors))
      else if i = [] then (ms, Inl (BadRequestError ''Member ID is required''))
      else
        let u = sanitizeUpdate normalizeEmail body in
        case findUniqueId ms i of
          None \<Rightarrow> (ms, Inl (NotFoundError ''Member not found''))
        | Some existingMember \<Rightarrow>
            if (case email_u u of
                  Some e \<Rightarrow> e \<noteq> [] \<and> e \<noteq> email existingMember \<and> findUniqueEmail ms e \<noteq> None
                | None \<Rightarrow> False)
            then (ms, Inl (ConflictError ''Member with this email already exists''))
            else
              let u' = (case expiryDate_u u of
                          ISODate d \<Rightarrow>
                            if d \<le> now then u \<lparr> status_u := Some ''INACTIVE'' \<rparr>
                            else if d \<le> now + thirtyDays
                            then u \<lparr> status_u := Some ''EXPIRING_SOON'' \<rparr>
                            else u \<lparr> status_u := Some ''ACTIVE'' \<rparr>
                        | _ \<Rightarrow> u)
              in (updateWhereId ms i (applyUpdate u'), Inr (applyUpdate u' existingMember)))"

text \<open>\<^verbatim>\<open>DELETE /members/:id\<close> answers with a message only; \<open>Inr ()\<close> stands for it.\<close>

definition deleteMember :: "members \<Rightarrow> string \<Rightarrow> members \<times> (error + unit)" where
  "deleteMember ms i =
     (if i = [] then (ms, Inl (BadRequestError ''Member ID is required''))
      else case findUniqueId ms i of
        None \<Rightarrow> (ms, Inl (NotFoundError ''Member not found''))
      | Some m \<Rightarrow> (updateWhereId ms i (\<lambda>m. m \<lparr> status := ''ARCHIVED'' \<rparr>), Inr ()))"

text \<open>\<^verbatim>\<open>GET /members/:id\<close>, without the related rows it includes.\<close>

definition getMember :: "members \<Rightarrow> string \<Rightarrow> error + member" where
  "getMember ms i =
     (if i = [] then Inl (BadRequestError ''Member ID is required'')
      else case findUniqueId ms i of
        None \<Rightarrow> Inl (NotFoundError ''Member not found'')
      | Some m \<Rightarrow> Inr m)"

subsection \<open>Listing members: the server-side \<^verbatim>\<open>where\<close> clause\<close>

text \<open>
  The query string of \<^verbatim>\<open>GET /members\<close>. \<open>page\<close> and \<open>limit\<close> are the integers their
  strings denote; the other parameters are the strings as sent.
\<close>

record membersQuery =
  page :: "int option"
  limit :: "int option"
  search :: "string option"
  status_q :: "string option"
  membershipType_q :: "string option"
  sortBy :: "string option"
  sortOrder :: "string option"

text \<open>The list the query validator accepts for \<^verbatim>\<open>membershipType\<close>, as it is written.\<close>

definition queryMembershipTypes :: "string list" where
  "queryMembershipTypes = [''ONE_MONTH'', ''THREE_MONTH'', '' SIX_MONTH'', ''ONE_YEAR'']"

definition validateMembersQuery :: "membersQuery \<Rightarrow> string list" where
  "validateMembersQuery q =
     optionalCheck (page q) (\<lambda>v. 1 \<le> v) ''Page must be a positive integer'' @
     optionalCheck (limit q) (\<lambda>v. 1 \<le> v \<and> v \<le> 100) ''Limit must be between 1 and 100'' @
     optionalCheck (status_q q) (\<lambda>v. v \<in> set statuses) ''Invalid value'' @
     optionalCheck (membershipType_q q) (\<lambda>v. v \<in> set queryMembershipTypes) ''Invalid value'' @
     optionalCheck (sortBy q) (\<lambda>v. v \<in> set [''name'', ''joinDate'', ''expiryDate'', ''status''])
       ''Invalid value'' @
     optionalCheck (sortOrder q) (\<lambda>v. v \<in> set [''asc'', ''desc'']) ''Invalid value''"

text \<open>
  \<^verbatim>\<open>{ contains: search, mode: 'insensitive' }\<close>: the database's case-insensitive match,
  with the same lower-casing as \<open>toLowerCase\<close>.
\<close>

definition containsInsensitive :: "string \<Rightarrow> string \<Rightarrow> bool" where
  "containsInsensitive field s = includes_str (toLowerCase field) (toLowerCase s)"

text \<open>
  The \<^verbatim>\<open>where\<close> object: a criterion is added only when its parameter is present and not
  the empty string.
\<close>

definition membersWhere :: "string option \<Rightarrow> string option \<Rightarrow> string option \<Rightarrow> member \<Rightarrow> bool" where
  "membersWhere search' status' membershipType' m =
     ((case search' of
         None \<Rightarrow> True
       | Some s \<Rightarrow> if s = [] then True
                  else containsInsensitive (name m) s \<or> containsInsensitive (email m) s \<or>
                       containsInsensitive (phone m) s) \<and>
      (case status' of None \<Rightarrow> True | Some st \<Rightarrow> if st = [] then True else status m = st) \<and>
      (case membershipType' of
         None \<Rightarrow> True
       | Some mt \<Rightarrow> if mt = [] then True else membershipType m = mt))"

text \<open>
  \<^verbatim>\<open>GET /members\<close>: the rows the \<^verbatim>\<open>where\<close> clause selects, which \<^verbatim>\<open>count\<close> counts and
  \<^verbatim>\<open>findMany\<close> sorts and pages.
\<close>

definition getMembers :: "members \<Rightarrow> membersQuery \<Rightarrow> error + member list" where
  "getMembers ms q =
     (let errors = validateMembersQuery q in
      if errors \<noteq> [] then Inl (firstError errors)
      else Inr (filter (membersWhere (map_option trim (search q)) (status_q q)
                          (membershipType_q q)) ms))"

subsection \<open>Listing members: the client-side filters\<close>

text \<open>The callback of \<^verbatim>\<open>members.filter\<close> in \<^verbatim>\<open>MemberManagement\<close>.\<close>

definition matchesFilter :: "string \<Rightarrow> string \<Rightarrow> string \<Rightarrow> member \<Rightarrow> bool" where
  "matchesFilter searchTerm statusFilter membershipFilter m =
     (let matchesSearch =
            (includes_str (toLowerCase (name m)) (toLowerCase searchTerm) \<or>
             includes_str (toLowerCase (email m)) (toLowerCase searchTerm) \<or>
             includes_str (phone m) searchTerm);
          matchesStatus =
            (if statusFilter = ''all'' then status m \<noteq> ''ARCHIVED''
             else if statusFilter = ''active'' then status m = ''ACTIVE''
             else if statusFilter = ''inactive'' then status m = ''INACTIVE''
             else if statusFilter = ''expiring'' then status m = ''EXPIRING_SOON''
             else if statusFilter = ''archived'' then status m = ''ARCHIVED''
             else True);
          matchesMembership = (membershipFilter = ''all'' \<or> membershipType m = membershipFilter)
      in matchesSearch \<and> matchesStatus \<and> matchesMembership)"

definition filteredMembers :: "members \<Rightarrow> string \<Rightarrow> string \<Rightarrow> string \<Rightarrow> members" where
  "filteredMembers ms searchTerm statusFilter membershipFilter =
     filter (matchesFilter searchTerm statusFilter membershipFilter) ms"

text \<open>The same list in the \<^verbatim>\<open>Index\<close> page.\<close>

definition filteredMembersIndex :: "members \<Rightarrow> string \<Rightarrow> string \<Rightarrow> string \<Rightarrow> members" where
  "filteredMembersIndex ms searchTerm statusFilter membershipFilter =
     filter (\<lambda>m.
       (includes_str (toLowerCase (name m)) (toLowerCase searchTerm) \<or>
        includes_str (toLowerCase (email m)) (toLowerCase searchTerm) \<or>
        includes_str (phone m) searchTerm) \<and>
       (statusFilter = ''all'' \<or> status m = statusFilter) \<and>
       (membershipFilter = ''all'' \<or> membershipType m = membershipFilter)) ms"

text \<open>
  The status selector of \<^verbatim>\<open>MemberManagement\<close> ("all", "active", "inactive", "expiring",
  "archived") against the \<^verbatim>\<open>status\<close> parameter of \<^verbatim>\<open>GET /members\<close>: the stored value
  the selector is compared with in \<open>matchesFilter\<close>, and no parameter for "all".
\<close>

definition statusParam :: "string \<Rightarrow> string option" where
  "statusParam statusFilter =
     (if statusFilter = ''active'' then Some ''ACTIVE''
      else if statusFilter = ''inactive'' then Some ''INACTIVE''
      else if statusFilter = ''expiring'' then Some ''EXPIRING_SOON''
      else if statusFilter = ''archived'' then Some ''ARCHIVED''
      else None)"

text \<open>The ASCII letters, the characters on which case matters.\<close>

definition isLetter :: "char \<Rightarrow> bool" where
  "isLetter c =
     (let n = (of_char c :: nat) in (65 \<le> n \<and> n \<le> 90) \<or> (97 \<le> n \<and> n \<le> 122))"

section \<open>Payments\<close>

text \<open>
  \<open>amount\<close> is a JavaScript number; it is kept as a rational, and the claims below do not
  depend on its value. \<open>paidAt\<close> and \<open>pNotes\<close> (the column \<^verbatim>\<open>notes\<close>) are nullable.
\<close>

record payment =
  pId :: string
  memberId :: string
  amount :: rat
  paymentType :: string
  pStatus :: string
  dueDate :: int
  paidAt :: "int option"
  pNotes :: "string option"

type_synonym payments = "payment list"

definition findPayment :: "payments \<Rightarrow> string \<Rightarrow> payment option" where
  "findPayment ps i = find (\<lambda>p. pId p = i) ps"

definition updatePayment :: "payments \<Rightarrow> string \<Rightarrow> (payment \<Rightarrow> payment) \<Rightarrow> payments" where
  "updatePayment ps i f = map (\<lambda>p. if pId p = i then f p else p) ps"

definition paymentTypes :: "string list" where
  "paymentTypes = [''MEMBERSHIP'', ''PERSONAL_TRAINING'', ''CLASS'', ''OTHER'']"

definition paymentStatuses :: "string list" where
  "paymentStatuses = [''PENDING'', ''PAID'', ''OVERDUE'', ''CANCELLED'']"

text \<open>The body of \<^verbatim>\<open>POST /payments\<close>, with the fields its validator names and \<^verbatim>\<open>notes\<close>.\<close>

record paymentData =
  memberId_p :: string
  amount_p :: rat
  paymentType_p :: string
  dueDate_p :: dateField
  notes_p :: "string option"

definition validatePayment :: "paymentData \<Rightarrow> string list" where
  "validatePayment b =
     (if memberId_p b \<noteq> [] then [] else [''Member ID is required'']) @
     (if 1 / 100 \<le> amount_p b then [] else [''Amount must be greater than 0'']) @
     (if paymentType_p b \<in> set paymentTypes then [] else [''Invalid payment type'']) @
     (case dueDate_p b of ISODate _ \<Rightarrow> [] | _ \<Rightarrow> [''Invalid due date''])"

text \<open>The body of \<^verbatim>\<open>PUT /payments/:id\<close>.\<close>

record paymentUpdate =
  amount_pu :: "rat option"
  paymentType_pu :: "string option"
  status_pu :: "string option"
  dueDate_pu :: dateField
  notes_pu :: "string option"

definition validatePaymentUpdate :: "paymentUpdate \<Rightarrow> string list" where
  "validatePaymentUpdate u =
     optionalCheck (amount_pu u) (\<lambda>v. 1 / 100 \<le> v) ''Amount must be greater than 0'' @
     optionalCheck (paymentType_pu u) (\<lambda>v. v \<in> set paymentTypes) ''Invalid payment type'' @
     optionalCheck (status_pu u) (\<lambda>v. v \<in> set paymentStatuses) ''Invalid status'' @
     (case dueDate_pu u of BadDate \<Rightarrow> [''Invalid due date''] | _ \<Rightarrow> [])"

definition postPayment ::
  "int \<Rightarrow> string \<Rightarrow> members \<Rightarrow> payments \<Rightarrow> paymentData \<Rightarrow> payments \<times> (error + payment)" where
  "postPayment now newId ms ps b =
     (let errors = validatePayment b in
      if errors \<noteq> [] then (ps, Inl (firstError errors))
      else case findUniqueId ms (memberId_p b) of
        None \<Rightarrow> (ps, Inl (NotFoundError ''Member not found''))
      | Some member \<Rightarrow>
          let due = (case dueDate_p b of ISODate d \<Rightarrow> d | _ \<Rightarrow> 0);
              status' = (if due < now then ''OVERDUE'' else ''PENDING'');
              p = \<lparr> pId = newId, memberId = memberId_p b, amount = amount_p b,
                    paymentType = paymentType_p b, pStatus = status', dueDate = due,
                    paidAt = None, pNotes = notes_p b \<rparr>
          in (ps @ [p], Inr p))"

text \<open>
  \<^verbatim>\<open>prisma.payment.update({ where: { id }, data: updateData })\<close>, where the handler may have
  added \<^verbatim>\<open>paidAt\<close> to the data (\<open>paidAt'\<close>).
\<close>

definition applyPaymentUpdate :: "paymentUpdate \<Rightarrow> int option \<Rightarrow> payment \<Rightarrow> payment" where
  "applyPaymentUpdate u paidAt' p =
     p \<lparr> amount := orElse (amount_pu u) (amount p),
         paymentType := orElse (paymentType_pu u) (paymentType p),
         pStatus := orElse (status_pu u) (pStatus p),
         dueDate := (case dueDate_pu u of ISODate d \<Rightarrow> d | _ \<Rightarrow> dueDate p),
         paidAt := (case paidAt' of Some t \<Rightarrow> Some t | None \<Rightarrow> paidAt p),
         pNotes := (case notes_pu u of Some n \<Rightarrow> Some n | None \<Rightarrow> pNotes p) \<rparr>"

definition putPayment ::
  "int \<Rightarrow> payments \<Rightarrow> string \<Rightarrow> paymentUpdate \<Rightarrow> payments \<times> (error + payment)" where
  "putPayment now ps i body =
     (let errors = validatePaymentUpdate body in
      if errors \<noteq> [] then (ps, Inl (firstError errors))
      else if i = [] then (ps, Inl (BadRequestError ''Payment ID is required''))
      else
        let u = body \<lparr> notes_pu := map_option trim (notes_pu body) \<rparr> in
        case findPayment ps i of
          None \<Rightarrow> (ps, Inl (NotFoundError ''Payment not found''))
        | Some existingPayment \<Rightarrow>
            let u' = (case dueDate_pu u of
                        ISODate d \<Rightarrow>
                          if d < now \<and> status_pu u \<noteq> Some ''PAID''
                          then u \<lparr> status_pu := Some ''OVERDUE'' \<rparr> else u
                      | _ \<Rightarrow> u);
                paidAt' = (if status_pu u' = Some ''PAID'' \<and> paidAt existingPayment = None
                           then Some now else None)
            in (updatePayment ps i (applyPaymentUpdate u' paidAt'),
                Inr (applyPaymentUpdate u' paidAt' existingPayment)))"

definition deletePayment :: "payments \<Rightarrow> string \<Rightarrow> payments \<times> (error + unit)" where
  "deletePayment ps i =
     (if i = [] then (ps, Inl (BadRequestError ''Payment ID is required''))
      else case findPayment ps i of
        None \<Rightarrow> (ps, Inl (NotFoundError ''Payment not found''))
      | Some p \<Rightarrow>
          if pStatus p \<noteq> ''PENDING''
          then (ps, Inl (BadRequestError ''Only pending payments can be deleted''))
          else (filter (\<lambda>p. pId p \<noteq> i) ps, Inr ()))"

text \<open>
  \<^verbatim>\<open>PATCH /payments/:id/mark-paid\<close>; \<open>notes'\<close> is the \<^verbatim>\<open>notes\<close> of the body, and
  \<^verbatim>\<open>notes || payment.notes\<close> keeps the stored notes when it is missing or empty.
\<close>

definition markPaid ::
  "int \<Rightarrow> payments \<Rightarrow> string \<Rightarrow> string option \<Rightarrow> payments \<times> (error + payment)" where
  "markPaid now ps i notes' =
     (if i = [] then (ps, Inl (BadRequestError ''Payment ID is required''))
      else case findPayment ps i of
        None \<Rightarrow> (ps, Inl (NotFoundError ''Payment not found''))
      | Some p \<Rightarrow>
          if pStatus p = ''PAID''
          then (ps, Inl (BadRequestError ''Payment is already marked as paid''))
          else
            let f = (\<lambda>p. p \<lparr> pStatus := ''PAID'', paidAt := Some now,
                             pNotes := (case notes' of
                                          Some n \<Rightarrow> if n = [] then pNotes p else Some n
                                        | None \<Rightarrow> pNotes p) \<rparr>)
            in (updatePayment ps i f, Inr (f p)))"

text \<open>The invariant of the data model: the paid timestamp is set exactly when the status is PAID.\<close>

definition paidAtIffPaid :: "payment \<Rightarrow> bool" where
  "paidAtIffPaid p = ((paidAt p \<noteq> None) = (pStatus p = ''PAID''))"

section \<open>Monthly statistics\<close>

text \<open>
  \<^verbatim>\<open>GET /dashboard/monthly-stats\<close> runs three grouped SQL queries and formats twelve buckets.
  \<^verbatim>\<open>EXTRACT(YEAR FROM ts)\<close> and \<^verbatim>\<open>EXTRACT(MONTH FROM ts)\<close> are the database's; the functions
  take them as the parameters \<open>yearOf\<close> and \<open>monthOf\<close>.
\<close>

record checkIn =
  checkInMemberId :: string
  checkInAt :: int

text \<open>
  \<^verbatim>\<open>SELECT month, COUNT(*) ... GROUP BY month ORDER BY month\<close> over the month numbers of the
  selected rows: one row per month that occurs, in ascending order.
\<close>

definition groupCount :: "nat list \<Rightarrow> (nat \<times> nat) list" where
  "groupCount ks = map (\<lambda>k. (k, count_list ks k)) (sort (remdups ks))"

text \<open>\<^verbatim>\<open>SELECT month, COALESCE(SUM(amount), 0) ... GROUP BY month ORDER BY month\<close>.\<close>

definition groupSum :: "(nat \<times> rat) list \<Rightarrow> (nat \<times> rat) list" where
  "groupSum rows =
     map (\<lambda>k. (k, sum_list (map snd (filter (\<lambda>r. fst r = k) rows))))
       (sort (remdups (map fst rows)))"

definition monthlyStatsQuery :: "(int \<Rightarrow> int) \<Rightarrow> (int \<Rightarrow> nat) \<Rightarrow> int \<Rightarrow> members \<Rightarrow> (nat \<times> nat) list" where
  "monthlyStatsQuery yearOf monthOf year' ms =
     groupCount (map (\<lambda>m. monthOf (joinDate m)) (filter (\<lambda>m. yearOf (joinDate m) = year') ms))"

definition monthlyRevenueQuery ::
  "(int \<Rightarrow> int) \<Rightarrow> (int \<Rightarrow> nat) \<Rightarrow> int \<Rightarrow> payments \<Rightarrow> (nat \<times> rat) list" where
  "monthlyRevenueQuery yearOf monthOf year' ps =
     groupSum (concat (map (\<lambda>p. case paidAt p of
                                  None \<Rightarrow> []
                                | Some t \<Rightarrow> if yearOf t = year' \<and> pStatus p = ''PAID''
                                            then [(monthOf t, amount p)] else []) ps))"

definition monthlyCheckInsQuery ::
  "(int \<Rightarrow> int) \<Rightarrow> (int \<Rightarrow> nat) \<Rightarrow> int \<Rightarrow> checkIn list \<Rightarrow> (nat \<times> nat) list" where
  "monthlyCheckInsQuery yearOf monthOf year' cs =
     groupCount (map (\<lambda>c. monthOf (checkInAt c))
                   (filter (\<lambda>c. yearOf (checkInAt c) = year') cs))"

definition monthNames :: "string list" where
  "monthNames = [''Jan'', ''Feb'', ''Mar'', ''Apr'', ''May'', ''Jun'',
                 ''Jul'', ''Aug'', ''Sep'', ''Oct'', ''Nov'', ''Dec'']"

text \<open>A JavaScript number that is a count, or \<^verbatim>\<open>NaN\<close>.\<close>

datatype jsNumber = Num nat | NaN

record monthBucket =
  month :: string
  monthNumber :: nat
  newMembers :: nat
  revenue :: rat
  checkIns :: jsNumber
  year :: int

text \<open>
  \<^verbatim>\<open>monthNames.map((month, index) => ...)\<close>. The rows come back with the lower-case column
  names PostgreSQL gives unquoted aliases (\<^verbatim>\<open>newmembers\<close>, \<^verbatim>\<open>revenue\<close>, \<^verbatim>\<open>checkins\<close>). The
  code reads \<^verbatim>\<open>monthData.newmembers\<close> and \<^verbatim>\<open>revenueData.revenue\<close>, and for check-ins
  \<^verbatim>\<open>checkInData.checkIns\<close>, a property the row does not have: \<^verbatim>\<open>Number(undefined)\<close> is
  \<^verbatim>\<open>NaN\<close> whenever the month has a row.
\<close>

definition formattedStats ::
  "int \<Rightarrow> (nat \<times> nat) list \<Rightarrow> (nat \<times> rat) list \<Rightarrow> (nat \<times> nat) list \<Rightarrow> monthBucket list" where
  "formattedStats year' monthlyStats monthlyRevenue monthlyCheckIns =
     map (\<lambda>(index, month').
            let monthNumber' = index + 1;
                monthData = find (\<lambda>s. fst s = monthNumber') monthlyStats;
                revenueData = find (\<lambda>s. fst s = monthNumber') monthlyRevenue;
                checkInData = find (\<lambda>s. fst s = monthNumber') monthlyCheckIns
            in \<lparr> month = month', monthNumber = monthNumber',
                 newMembers = (case monthData of Some s \<Rightarrow> snd s | None \<Rightarrow> 0),
                 revenue = (case revenueData of Some s \<Rightarrow> snd s | None \<Rightarrow> 0),
                 checkIns = (case checkInData of Some s \<Rightarrow> NaN | None \<Rightarrow> Num 0),
                 year = year' \<rparr>)
       (enumerate 0 monthNames)"

text \<open>The aggregation for a reference year over the three tables.\<close>

definition monthlyStatsFor ::
  "(int \<Rightarrow> int) \<Rightarrow> (int \<Rightarrow> nat) \<Rightarrow> int \<Rightarrow> members \<Rightarrow> payments \<Rightarrow> checkIn list
     \<Rightarrow> monthBucket list" where
  "monthlyStatsFor yearOf monthOf year' ms ps cs =
     formattedStats year' (monthlyStatsQuery yearOf monthOf year' ms)
       (monthlyRevenueQuery yearOf monthOf year' ps)
       (monthlyCheckInsQuery yearOf monthOf year' cs)"

text \<open>
  The handler: \<open>yearParam\<close> is the \<^verbatim>\<open>year\<close> of the query string when present, and
  \<open>currentYear\<close> is \<^verbatim>\<open>new Date().getFullYear()\<close>; \<^verbatim>\<open>parseInt(year) || currentYear\<close>.
\<close>

definition getMonthlyStats ::
  "(int \<Rightarrow> int) \<Rightarrow> (int \<Rightarrow> nat) \<Rightarrow> int \<Rightarrow> int option \<Rightarrow> members \<Rightarrow> payments \<Rightarrow> checkIn list
     \<Rightarrow> error + monthBucket list" where
  "getMonthlyStats yearOf monthOf currentYear yearParam ms ps cs =
     (let errors = optionalCheck yearParam (\<lambda>y. 2020 \<le> y \<and> y \<le> 2030) ''Invalid year'' in
      if errors \<noteq> [] then Inl (firstError errors)
      else Inr (monthlyStatsFor yearOf monthOf (orElse yearParam currentYear) ms ps cs))"

section \<open>Properties\<close>

subsection \<open>Auxiliary facts\<close>

lemma thirtyDays_ms: "thirtyDays = 2592000000"
  by (simp add: thirtyDays_def)

lemma firstError_BadRequest: "\<exists>msg. firstError errors = BadRequestError msg"
  by (simp add: firstError_def split: list.splits)

subsection \<open>Status derivation on create and update\<close>

text \<open>
  C1. A valid \<^verbatim>\<open>POST /members\<close> for an unused email, and a valid \<^verbatim>\<open>PUT /members/:id\<close>
  for an existing member whose body carries an expiry date, both answer with a member
  whose status follows from the expiry date \<open>d\<close> and the time \<open>t\<close> of the request: INACTIVE
  exactly when \<open>d \<le> t\<close>, EXPIRING_SOON exactly when \<open>t < d \<le> t + 30 days\<close>, ACTIVE exactly
  when \<open>d > t + 30 days\<close> (30 days are 2592000000 ms).
\<close>

theorem status_derivation:
  "(validateMember isEmail b = [] \<and> findUniqueEmail ms (normalizeEmail (email_b b)) = None \<and>
      expiryDate_b b = ISODate d \<longrightarrow>
      (\<exists>m. postMember isEmail normalizeEmail t newId ms b = (ms @ [m], Inr m) \<and>
         (status m = ''INACTIVE'' \<longleftrightarrow> d \<le> t) \<and>
         (status m = ''EXPIRING_SOON'' \<longleftrightarrow> t < d \<and> d \<le> t + 2592000000) \<and>
         (status m = ''ACTIVE'' \<longleftrightarrow> t + 2592000000 < d))) \<and>
   (validateMemberUpdate isEmail u = [] \<and> i \<noteq> [] \<and> findUniqueId ms i = Some m0 \<and>
      (\<forall>e. email_u u = Some e \<longrightarrow> normalizeEmail e = [] \<or> normalizeEmail e = email m0 \<or>
            findUniqueEmail ms (normalizeEmail e) = None) \<and>
      expiryDate_u u = ISODate d \<longrightarrow>
      (\<exists>m. snd (putMember isEmail normalizeEmail t ms i u) = Inr m \<and>
         (status m = ''INACTIVE'' \<longleftrightarrow> d \<le> t) \<and>
         (status m = ''EXPIRING_SOON'' \<longleftrightarrow> t < d \<and> d \<le> t + 2592000000) \<and>
         (status m = ''ACTIVE'' \<longleftrightarrow> t + 2592000000 < d)))"
proof (intro conjI impI)
  assume a: "validateMember isEmail b = [] \<and>
      findUniqueEmail ms (normalizeEmail (email_b b)) = None \<and> expiryDate_b b = ISODate d"
  then show "\<exists>m. postMember isEmail normalizeEmail t newId ms b = (ms @ [m], Inr m) \<and>
         (status m = ''INACTIVE'' \<longleftrightarrow> d \<le> t) \<and>
         (status m = ''EXPIRING_SOON'' \<longleftrightarrow> t < d \<and> d \<le> t + 2592000000) \<and>
         (status m = ''ACTIVE'' \<longleftrightarrow> t + 2592000000 < d)"
    by (simp add: postMember_def Let_def thirtyDays_ms)
next
  assume a: "validateMemberUpdate isEmail u = [] \<and> i \<noteq> [] \<and> findUniqueId ms i = Some m0 \<and>
      (\<forall>e. email_u u = Some e \<longrightarrow> normalizeEmail e = [] \<or> normalizeEmail e = email m0 \<or>
            findUniqueEmail ms (normalizeEmail e) = None) \<and>
      expiryDate_u u = ISODate d"
  then have noconf: "\<not> (case email_u (sanitizeUpdate normalizeEmail u) of
                  Some e \<Rightarrow> e \<noteq> [] \<and> e \<noteq> email m0 \<and> findUniqueEmail ms e \<noteq> None
                | None \<Rightarrow> False)"
    by (auto simp: sanitizeUpdate_def split: option.splits)
  have ex: "expiryDate_u (sanitizeUpdate normalizeEmail u) = ISODate d"
    using a by (simp add: sanitizeUpdate_def)
  show "\<exists>m. snd (putMember isEmail normalizeEmail t ms i u) = Inr m \<and>
         (status m = ''INACTIVE'' \<longleftrightarrow> d \<le> t) \<and>
         (status m = ''EXPIRING_SOON'' \<longleftrightarrow> t < d \<and> d \<le> t + 2592000000) \<and>
         (status m = ''ACTIVE'' \<longleftrightarrow> t + 2592000000 < d)"
    using a noconf ex
    by (simp add: putMember_def Let_def thirtyDays_ms applyUpdate_def orElse_def)
qed

text \<open>
  An expiry date 10 days after the request gives EXPIRING_SOON on create; an expiry date
  one day before the request gives INACTIVE on update.
\<close>

theorem status_derivation_witness:
  "(validateMember (\<lambda>s. includes_str s ''@'')
        \<lparr> name_b = ''Asha Rai'', age_b = 30, gender_b = ''FEMALE'', email_b = ''Asha@Example.com'',
          phone_b = ''9800000000'', membershipType_b = ''SIX_MONTH'',
          expiryDate_b = ISODate (1700000000000 + 10 * 86400000), profilePicture_b = None,
          joinDate_b = None \<rparr> = [] \<and>
    findUniqueEmail [] (toLowerCase ''Asha@Example.com'') = None \<and>
    (\<exists>m. postMember (\<lambda>s. includes_str s ''@'') toLowerCase 1700000000000 ''m1'' []
        \<lparr> name_b = ''Asha Rai'', age_b = 30, gender_b = ''FEMALE'', email_b = ''Asha@Example.com'',
          phone_b = ''9800000000'', membershipType_b = ''SIX_MONTH'',
          expiryDate_b = ISODate (1700000000000 + 10 * 86400000), profilePicture_b = None,
          joinDate_b = None \<rparr> = ([m], Inr m) \<and> status m = ''EXPIRING_SOON'')) \<and>
   (\<exists>m. snd (putMember (\<lambda>s. includes_str s ''@'') toLowerCase 1700000000000
        [\<lparr> mId = ''m1'', name = ''Asha Rai'', age = 30, gender = ''FEMALE'',
           email = ''asha@example.com'', phone = ''9800000000'', membershipType = ''SIX_MONTH'',
           expiryDate = 1700864000000, status = ''EXPIRING_SOON'', profilePicture = None,
           joinDate = 1700000000000 \<rparr>] ''m1''
        \<lparr> name_u = None, age_u = None, gender_u = None, email_u = None, phone_u = None,
          membershipType_u = None, expiryDate_u = ISODate (1700000000000 - 86400000),
          status_u = None, profilePicture_u = None \<rparr>) = Inr m \<and> status m = ''INACTIVE'')"
proof -
  let ?isE = "\<lambda>s. includes_str s ''@''"
  let ?b = "\<lparr> name_b = ''Asha Rai'', age_b = 30, gender_b = ''FEMALE'',
          email_b = ''Asha@Example.com'',
          phone_b = ''9800000000'', membershipType_b = ''SIX_MONTH'',
          expiryDate_b = ISODate (1700000000000 + 10 * 86400000), profilePicture_b = None,
          joinDate_b = None \<rparr>"
  let ?m0 = "\<lparr> mId = ''m1'', name = ''Asha Rai'', age = 30, gender = ''FEMALE'',
           email = ''asha@example.com'', phone = ''9800000000'', membershipType = ''SIX_MONTH'',
           expiryDate = 1700864000000, status = ''EXPIRING_SOON'', profilePicture = None,
           joinDate = 1700000000000 \<rparr>"
  let ?u = "\<lparr> name_u = None, age_u = None, gender_u = None, email_u = None, phone_u = None,
          membershipType_u = None, expiryDate_u = ISODate (1700000000000 - 86400000),
          status_u = None, profilePicture_u = None \<rparr>"
  have v: "validateMember ?isE ?b = []"
    by (simp add: validateMember_def trim_def isSpace_def genders_def membershipTypes_def)
  have f: "findUniqueEmail [] (toLowerCase ''Asha@Example.com'') = None"
    by (simp add: findUniqueEmail_def)
  have vu: "validateMemberUpdate ?isE ?u = []"
    by (simp add: validateMemberUpdate_def optionalCheck_def)
  have fi: "findUniqueId [?m0] ''m1'' = Some ?m0"
    by (simp add: findUniqueId_def)
  note post = status_derivation [where isEmail = ?isE and b = ?b and ms = "[]"
      and normalizeEmail = toLowerCase and d = "1700000000000 + 10 * 86400000"
      and t = 1700000000000 and newId = "''m1''", THEN conjunct1]
  note put = status_derivation [where isEmail = ?isE and u = ?u and ms = "[?m0]"
      and normalizeEmail = toLowerCase and d = "1700000000000 - 86400000"
      and t = 1700000000000 and i = "''m1''" and ?m0.0 = ?m0, THEN conjunct2]
  show ?thesis
    using post put v f vu fi by auto
qed

subsection \<open>Archived members and updates\<close>

lemma sanitizeUpdate_keeps:
  "expiryDate_u (sanitizeUpdate normalizeEmail u) = expiryDate_u u"
  "status_u (sanitizeUpdate normalizeEmail u) = status_u u"
  by (simp_all add: sanitizeUpdate_def)

text \<open>
  C2, as stated, fails: the update handler has no test of the current status. An ARCHIVED
  member whose expiry date is updated to a date 90 days ahead comes back ACTIVE.
\<close>

theorem archived_overridden_counterexample:
  "putMember (\<lambda>s. includes_str s ''@'') toLowerCase 1700000000000
     [\<lparr> mId = ''m1'', name = ''Asha Rai'', age = 30, gender = ''FEMALE'',
        email = ''asha@example.com'', phone = ''9800000000'', membershipType = ''SIX_MONTH'',
        expiryDate = 1690000000000, status = ''ARCHIVED'', profilePicture = None,
        joinDate = 1680000000000 \<rparr>] ''m1''
     \<lparr> name_u = None, age_u = None, gender_u = None, email_u = None, phone_u = None,
       membershipType_u = None, expiryDate_u = ISODate 1707776000000,
       status_u = None, profilePicture_u = None \<rparr>
   = ([\<lparr> mId = ''m1'', name = ''Asha Rai'', age = 30, gender = ''FEMALE'',
        email = ''asha@example.com'', phone = ''9800000000'', membershipType = ''SIX_MONTH'',
        expiryDate = 1707776000000, status = ''ACTIVE'', profilePicture = None,
        joinDate = 1680000000000 \<rparr>],
      Inr \<lparr> mId = ''m1'', name = ''Asha Rai'', age = 30, gender = ''FEMALE'',
        email = ''asha@example.com'', phone = ''9800000000'', membershipType = ''SIX_MONTH'',
        expiryDate = 1707776000000, status = ''ACTIVE'', profilePicture = None,
        joinDate = 1680000000000 \<rparr>)"
  by (simp add: putMember_def validateMemberUpdate_def optionalCheck_def Let_def
      findUniqueId_def sanitizeUpdate_def updateWhereId_def applyUpdate_def orElse_def
      thirtyDays_def)

text \<open>
  C2, amended. For a member whose current status is ARCHIVED, a successful
  \<^verbatim>\<open>PUT /members/:id\<close> leaves the status ARCHIVED exactly when the body carries no expiry
  date and no status other than ARCHIVED; a body that carries an expiry date \<open>d\<close> gives the
  status derived from \<open>d\<close> and the time of the request, whatever the status was.
\<close>

theorem put_on_archived:
  assumes "findUniqueId ms i = Some m0" and "status m0 = ''ARCHIVED''"
    and "snd (putMember isEmail normalizeEmail t ms i u) = Inr m"
  shows "(status m = ''ARCHIVED'' \<longleftrightarrow>
            expiryDate_u u = NoDate \<and> (status_u u = None \<or> status_u u = Some ''ARCHIVED'')) \<and>
         (\<forall>d. expiryDate_u u = ISODate d \<longrightarrow>
            status m = (if d \<le> t then ''INACTIVE''
                        else if d \<le> t + 2592000000 then ''EXPIRING_SOON'' else ''ACTIVE''))"
proof -
  have nb: "expiryDate_u u \<noteq> BadDate"
    using assms(3)
    by (auto simp: putMember_def Let_def validateMemberUpdate_def split: if_splits)
  have m: "m = applyUpdate
       (case expiryDate_u u of
          ISODate d \<Rightarrow>
            if d \<le> t then (sanitizeUpdate normalizeEmail u) \<lparr> status_u := Some ''INACTIVE'' \<rparr>
            else if d \<le> t + thirtyDays
            then (sanitizeUpdate normalizeEmail u) \<lparr> status_u := Some ''EXPIRING_SOON'' \<rparr>
            else (sanitizeUpdate normalizeEmail u) \<lparr> status_u := Some ''ACTIVE'' \<rparr>
        | _ \<Rightarrow> sanitizeUpdate normalizeEmail u) m0"
    using assms(1,3)
    by (auto simp: putMember_def Let_def sanitizeUpdate_keeps split: if_splits)
  show ?thesis
    using nb assms(2) unfolding m
    by (cases "expiryDate_u u"; cases "status_u u")
       (simp_all add: applyUpdate_def orElse_def sanitizeUpdate_keeps thirtyDays_def)
qed

text \<open>An update of the name alone keeps the member ARCHIVED.\<close>

theorem put_on_archived_witness:
  "findUniqueId
     [\<lparr> mId = ''m1'', name = ''Asha Rai'', age = 30, gender = ''FEMALE'',
        email = ''asha@example.com'', phone = ''9800000000'', membershipType = ''SIX_MONTH'',
        expiryDate = 1690000000000, status = ''ARCHIVED'', profilePicture = None,
        joinDate = 1680000000000 \<rparr>] ''m1'' =
     Some \<lparr> mId = ''m1'', name = ''Asha Rai'', age = 30, gender = ''FEMALE'',
        email = ''asha@example.com'', phone = ''9800000000'', membershipType = ''SIX_MONTH'',
        expiryDate = 1690000000000, status = ''ARCHIVED'', profilePicture = None,
        joinDate = 1680000000000 \<rparr> \<and>
   snd (putMember (\<lambda>s. includes_str s ''@'') toLowerCase 1700000000000
     [\<lparr> mId = ''m1'', name = ''Asha Rai'', age = 30, gender = ''FEMALE'',
        email = ''asha@example.com'', phone = ''9800000000'', membershipType = ''SIX_MONTH'',
        expiryDate = 1690000000000, status = ''ARCHIVED'', profilePicture = None,
        joinDate = 1680000000000 \<rparr>] ''m1''
     \<lparr> name_u = Some '' Asha R. Rai '', age_u = None, gender_u = None, email_u = None,
       phone_u = None, membershipType_u = None, expiryDate_u = NoDate,
       status_u = None, profilePicture_u = None \<rparr>) =
     Inr \<lparr> mId = ''m1'', name = ''Asha R. Rai'', age = 30, gender = ''FEMALE'',
        email = ''asha@example.com'', phone = ''9800000000'', membershipType = ''SIX_MONTH'',
        expiryDate = 1690000000000, status = ''ARCHIVED'', profilePicture = None,
        joinDate = 1680000000000 \<rparr> \<and>
   status \<lparr> mId = ''m1'', name = ''Asha R. Rai'', age = 30, gender = ''FEMALE'',
        email = ''asha@example.com'', phone = ''9800000000'', membershipType = ''SIX_MONTH'',
        expiryDate = 1690000000000, status = ''ARCHIVED'', profilePicture = None,
        joinDate = 1680000000000 \<rparr> = ''ARCHIVED''"
proof -
  let ?old = "\<lparr> mId = ''m1'', name = ''Asha Rai'', age = 30, gender = ''FEMALE'',
        email = ''asha@example.com'', phone = ''9800000000'', membershipType = ''SIX_MONTH'',
        expiryDate = 1690000000000, status = ''ARCHIVED'', profilePicture = None,
        joinDate = 1680000000000 \<rparr>"
  let ?new = "\<lparr> mId = ''m1'', name = ''Asha R. Rai'', age = 30, gender = ''FEMALE'',
        email = ''asha@example.com'', phone = ''9800000000'', membershipType = ''SIX_MONTH'',
        expiryDate = 1690000000000, status = ''ARCHIVED'', profilePicture = None,
        joinDate = 1680000000000 \<rparr>"
  let ?u = "\<lparr> name_u = Some '' Asha R. Rai '', age_u = None, gender_u = None, email_u = None,
       phone_u = None, membershipType_u = None, expiryDate_u = NoDate,
       status_u = None, profilePicture_u = None \<rparr>"
  have f: "findUniqueId [?old] ''m1'' = Some ?old"
    by (simp add: findUniqueId_def)
  have s: "status ?old = ''ARCHIVED''"
    by simp
  have p: "snd (putMember (\<lambda>s. includes_str s ''@'') toLowerCase 1700000000000 [?old] ''m1'' ?u)
           = Inr ?new"
    by (simp add: putMember_def validateMemberUpdate_def optionalCheck_def Let_def
        findUniqueId_def sanitizeUpdate_def updateWhereId_def applyUpdate_def orElse_def
        trim_def isSpace_def)
  from put_on_archived [OF f s p] have "status ?new = ''ARCHIVED''"
    by simp
  with f p show ?thesis
    by simp
qed

subsection \<open>Email uniqueness on create\<close>

lemma findUniqueEmail_append:
  "findUniqueEmail ms e = None \<Longrightarrow> findUniqueEmail (ms @ [m]) e = (if email m = e then Some m else None)"
  by (induction ms) (simp_all add: findUniqueEmail_def split: if_splits)

text \<open>
  C7. Two valid \<^verbatim>\<open>POST /members\<close> requests whose emails normalise to the same address,
  run one after the other on a table that does not hold that address yet: the first
  creates a member, the second fails with Conflict and leaves the table as the first left
  it.
\<close>

theorem duplicate_email_conflict:
  assumes "validateMember isEmail b1 = []" and "validateMember isEmail b2 = []"
    and "normalizeEmail (email_b b1) = normalizeEmail (email_b b2)"
    and "findUniqueEmail ms (normalizeEmail (email_b b1)) = None"
  shows "\<exists>m. postMember isEmail normalizeEmail t1 id1 ms b1 = (ms @ [m], Inr m) \<and>
             email m = normalizeEmail (email_b b1) \<and>
             postMember isEmail normalizeEmail t2 id2 (ms @ [m]) b2 =
               (ms @ [m], Inl (ConflictError ''Member with this email already exists''))"
proof -
  obtain m where m: "postMember isEmail normalizeEmail t1 id1 ms b1 = (ms @ [m], Inr m)"
    and e: "email m = normalizeEmail (email_b b1)"
    using assms(1,4) by (simp add: postMember_def Let_def)
  have "findUniqueEmail (ms @ [m]) (normalizeEmail (email_b b2)) = Some m"
    using assms(3,4) e by (simp add: findUniqueEmail_append)
  then have "postMember isEmail normalizeEmail t2 id2 (ms @ [m]) b2 =
               (ms @ [m], Inl (ConflictError ''Member with this email already exists''))"
    using assms(2) by (simp add: postMember_def Let_def)
  with m e show ?thesis by blast
qed

theorem duplicate_email_conflict_witness:
  "\<exists>m. postMember (\<lambda>s. includes_str s ''@'') toLowerCase 1700000000000 ''m1'' []
        \<lparr> name_b = ''Asha Rai'', age_b = 30, gender_b = ''FEMALE'',
          email_b = ''Asha@Example.com'', phone_b = ''9800000000'',
          membershipType_b = ''SIX_MONTH'', expiryDate_b = ISODate 1707776000000,
          profilePicture_b = None, joinDate_b = None \<rparr> = ([m], Inr m) \<and>
       email m = toLowerCase ''Asha@Example.com'' \<and>
       postMember (\<lambda>s. includes_str s ''@'') toLowerCase 1700000005000 ''m2'' [m]
        \<lparr> name_b = ''A. Rai'', age_b = 31, gender_b = ''FEMALE'',
          email_b = ''ASHA@example.COM'', phone_b = ''9800000001'',
          membershipType_b = ''ONE_YEAR'', expiryDate_b = ISODate 1717776000000,
          profilePicture_b = None, joinDate_b = None \<rparr> =
         ([m], Inl (ConflictError ''Member with this email already exists''))"
proof -
  let ?isE = "\<lambda>s. includes_str s ''@''"
  let ?b1 = "\<lparr> name_b = ''Asha Rai'', age_b = 30, gender_b = ''FEMALE'',
          email_b = ''Asha@Example.com'', phone_b = ''9800000000'',
          membershipType_b = ''SIX_MONTH'', expiryDate_b = ISODate 1707776000000,
          profilePicture_b = None, joinDate_b = None \<rparr>"
  let ?b2 = "\<lparr> name_b = ''A. Rai'', age_b = 31, gender_b = ''FEMALE'',
          email_b = ''ASHA@example.COM'', phone_b = ''9800000001'',
          membershipType_b = ''ONE_YEAR'', expiryDate_b = ISODate 1717776000000,
          profilePicture_b = None, joinDate_b = None \<rparr>"
  have v1: "validateMember ?isE ?b1 = []"
    by (simp add: validateMember_def trim_def isSpace_def genders_def membershipTypes_def)
  have v2: "validateMember ?isE ?b2 = []"
    by (simp add: validateMember_def trim_def isSpace_def genders_def membershipTypes_def)
  have "toLowerCase ''Asha@Example.com'' = toLowerCase ''ASHA@example.COM''"
    by code_simp
  then have n: "toLowerCase (email_b ?b1) = toLowerCase (email_b ?b2)"
    by simp
  have f: "findUniqueEmail [] (toLowerCase (email_b ?b1)) = None"
    by (simp add: findUniqueEmail_def)
  from duplicate_email_conflict [OF v1 v2 n f, of 1700000000000 "''m1''" 1700000005000 "''m2''"]
  show ?thesis
    by simp
qed

subsection \<open>Soft delete\<close>

lemma findUniqueId_updateWhereId:
  "(\<And>m. mId (f m) = mId m) \<Longrightarrow>
   findUniqueId (updateWhereId ms i f) i = map_option f (findUniqueId ms i)"
  by (induction ms) (simp_all add: findUniqueId_def updateWhereId_def)

lemma length_updateWhereId: "length (updateWhereId ms i f) = length ms"
  by (simp add: updateWhereId_def)

lemma nth_updateWhereId_other:
  "k < length ms \<Longrightarrow> mId (ms ! k) \<noteq> i \<Longrightarrow> updateWhereId ms i f ! k = ms ! k"
  by (simp add: updateWhereId_def)

text \<open>
  C8. \<^verbatim>\<open>DELETE /members/:id\<close> on an existing member succeeds; afterwards the row is still
  there and can be read, it is the old row with \<open>status\<close> set to ARCHIVED and every other
  field as before, the table has as many rows as before, and the rows of other ids are
  unchanged.
\<close>

theorem delete_archives_only_status:
  assumes "i \<noteq> []" and "findUniqueId ms i = Some m"
  shows "snd (deleteMember ms i) = Inr () \<and>
         findUniqueId (fst (deleteMember ms i)) i = Some (m \<lparr> status := ''ARCHIVED'' \<rparr>) \<and>
         getMember (fst (deleteMember ms i)) i = Inr (m \<lparr> status := ''ARCHIVED'' \<rparr>) \<and>
         length (fst (deleteMember ms i)) = length ms \<and>
         (\<forall>k < length ms. mId (ms ! k) \<noteq> i \<longrightarrow> fst (deleteMember ms i) ! k = ms ! k)"
  using assms
  by (simp add: deleteMember_def getMember_def findUniqueId_updateWhereId
      length_updateWhereId nth_updateWhereId_other)

theorem delete_archives_only_status_witness:
  "''m1'' \<noteq> [] \<and>
   snd (deleteMember
     [\<lparr> mId = ''m1'', name = ''Asha Rai'', age = 30, gender = ''FEMALE'',
        email = ''asha@example.com'', phone = ''9800000000'', membershipType = ''SIX_MONTH'',
        expiryDate = 1707776000000, status = ''ACTIVE'', profilePicture = None,
        joinDate = 1680000000000 \<rparr>,
      \<lparr> mId = ''m2'', name = ''Bikash Lama'', age = 41, gender = ''MALE'',
        email = ''bikash@example.com'', phone = ''9811111111'', membershipType = ''ONE_YEAR'',
        expiryDate = 1717776000000, status = ''ACTIVE'', profilePicture = None,
        joinDate = 1685000000000 \<rparr>] ''m1'') = Inr () \<and>
   getMember (fst (deleteMember
     [\<lparr> mId = ''m1'', name = ''Asha Rai'', age = 30, gender = ''FEMALE'',
        email = ''asha@example.com'', phone = ''9800000000'', membershipType = ''SIX_MONTH'',
        expiryDate = 1707776000000, status = ''ACTIVE'', profilePicture = None,
        joinDate = 1680000000000 \<rparr>,
      \<lparr> mId = ''m2'', name = ''Bikash Lama'', age = 41, gender = ''MALE'',
        email = ''bikash@example.com'', phone = ''9811111111'', membershipType = ''ONE_YEAR'',
        expiryDate = 1717776000000, status = ''ACTIVE'', profilePicture = None,
        joinDate = 1685000000000 \<rparr>] ''m1'')) ''m1'' =
     Inr \<lparr> mId = ''m1'', name = ''Asha Rai'', age = 30, gender = ''FEMALE'',
        email = ''asha@example.com'', phone = ''9800000000'', membershipType = ''SIX_MONTH'',
        expiryDate = 1707776000000, status = ''ARCHIVED'', profilePicture = None,
        joinDate = 1680000000000 \<rparr>"
proof -
  let ?m1 = "\<lparr> mId = ''m1'', name = ''Asha Rai'', age = 30, gender = ''FEMALE'',
        email = ''asha@example.com'', phone = ''9800000000'', membershipType = ''SIX_MONTH'',
        expiryDate = 1707776000000, status = ''ACTIVE'', profilePicture = None,
        joinDate = 1680000000000 \<rparr>"
  let ?m2 = "\<lparr> mId = ''m2'', name = ''Bikash Lama'', age = 41, gender = ''MALE'',
        email = ''bikash@example.com'', phone = ''9811111111'', membershipType = ''ONE_YEAR'',
        expiryDate = 1717776000000, status = ''ACTIVE'', profilePicture = None,
        joinDate = 1685000000000 \<rparr>"
  have i: "''m1'' \<noteq> []"
    by simp
  have f: "findUniqueId [?m1, ?m2] ''m1'' = Some ?m1"
    by (simp add: findUniqueId_def)
  from delete_archives_only_status [OF i f] show ?thesis
    by simp
qed

subsection \<open>Facts about strings\<close>

lemma includes_str_iff: "includes_str s t \<longleftrightarrow> (\<exists>p q. s = p @ t @ q)"
proof (induction s)
  case Nil
  then show ?case by auto
next
  case (Cons c cs)
  have "take (length t) (c # cs) = t \<longleftrightarrow> (\<exists>q. c # cs = t @ q)"
    by (metis append_eq_conv_conj append_take_drop_id)
  moreover have "(\<exists>p q. c # cs = p @ t @ q) \<longleftrightarrow> (\<exists>q. c # cs = t @ q) \<or> (\<exists>p q. cs = p @ t @ q)"
  proof
    assume "\<exists>p q. c # cs = p @ t @ q"
    then obtain p q where pq: "c # cs = p @ t @ q" by blast
    show "(\<exists>q. c # cs = t @ q) \<or> (\<exists>p q. cs = p @ t @ q)"
    proof (cases p)
      case Nil
      with pq show ?thesis by auto
    next
      case (Cons a p')
      with pq have "cs = p' @ t @ q" by simp
      then show ?thesis by blast
    qed
  next
    assume "(\<exists>q. c # cs = t @ q) \<or> (\<exists>p q. cs = p @ t @ q)"
    then show "\<exists>p q. c # cs = p @ t @ q"
    proof
      assume "\<exists>q. c # cs = t @ q"
      then obtain q where "c # cs = [] @ t @ q" by auto
      then show ?thesis by blast
    next
      assume "\<exists>p q. cs = p @ t @ q"
      then obtain p q where "c # cs = (c # p) @ t @ q" by auto
      then show ?thesis by blast
    qed
  qed
  ultimately show ?case using Cons.IH by simp
qed

lemma includes_str_empty: "includes_str s []"
  by (cases s) simp_all

lemma includes_str_subset: "includes_str s t \<Longrightarrow> set t \<subseteq> set s"
  by (auto simp: includes_str_iff)

lemma lowerChar_not_letter:
  assumes "\<not> isLetter c"
  shows "lowerChar c = c"
proof -
  from assms have "\<not> (65 \<le> (of_char c :: nat) \<and> (of_char c :: nat) \<le> 90)"
    unfolding isLetter_def Let_def by blast
  then show ?thesis
    unfolding lowerChar_def Let_def by (rule if_not_P)
qed

lemma lowerChar_into_not_letter:
  assumes "\<not> isLetter (lowerChar c)"
  shows "lowerChar c = c"
proof (cases "65 \<le> (of_char c :: nat) \<and> (of_char c :: nat) \<le> 90")
  case True
  then have l: "lowerChar c = char_of ((of_char c :: nat) + 32)"
    unfolding lowerChar_def Let_def by (rule if_P)
  have "(of_char c :: nat) + 32 < 256"
    using True by linarith
  then have "((of_char c :: nat) + 32) mod 256 = of_char c + 32"
    by (rule mod_less)
  then have "(of_char (char_of ((of_char c :: nat) + 32)) :: nat) = of_char c + 32"
    by (simp only: of_char_of)
  then have "(of_char (lowerChar c) :: nat) = of_char c + 32"
    by (simp only: l)
  then have "97 \<le> (of_char (lowerChar c) :: nat) \<and> (of_char (lowerChar c) :: nat) \<le> 122"
    using True by linarith
  then have "isLetter (lowerChar c)"
    unfolding isLetter_def Let_def by blast
  with assms show ?thesis by blast
next
  case False
  then show ?thesis
    unfolding lowerChar_def Let_def by (rule if_not_P)
qed

lemma toLowerCase_no_letters: "\<forall>c\<in>set s. \<not> isLetter c \<Longrightarrow> toLowerCase s = s"
  by (induction s) (simp_all add: toLowerCase_def lowerChar_not_letter)

lemma toLowerCase_into_no_letters:
  "\<forall>c\<in>set (toLowerCase s). \<not> isLetter c \<Longrightarrow> toLowerCase s = s"
proof (induction s)
  case Nil
  show ?case by (simp add: toLowerCase_def)
next
  case (Cons c cs)
  from Cons.prems have "\<not> isLetter (lowerChar c)"
    by (simp add: toLowerCase_def)
  then have "lowerChar c = c"
    by (rule lowerChar_into_not_letter)
  moreover from Cons have "toLowerCase cs = cs"
    by (simp add: toLowerCase_def)
  ultimately show ?case
    by (simp add: toLowerCase_def)
qed

lemma phone_match_case:
  assumes "\<forall>c\<in>set ph. \<not> isLetter c"
  shows "containsInsensitive ph s = includes_str ph s"
proof -
  have ph: "toLowerCase ph = ph"
    using assms by (rule toLowerCase_no_letters)
  show ?thesis
  proof
    assume "containsInsensitive ph s"
    then have i: "includes_str ph (toLowerCase s)"
      by (simp add: containsInsensitive_def ph)
    then have "\<forall>c\<in>set (toLowerCase s). \<not> isLetter c"
      using assms includes_str_subset by blast
    then have "toLowerCase s = s"
      by (rule toLowerCase_into_no_letters)
    with i show "includes_str ph s" by simp
  next
    assume i: "includes_str ph s"
    then have "\<forall>c\<in>set s. \<not> isLetter c"
      using assms includes_str_subset by blast
    then have "toLowerCase s = s"
      by (rule toLowerCase_no_letters)
    with i show "containsInsensitive ph s"
      by (simp add: containsInsensitive_def ph)
  qed
qed

subsection \<open>The client-side filter predicate\<close>

text \<open>
  C4, as stated, fails on the phone number: the client compares it with the search string
  as typed. The search "call" is a case-insensitive substring of the phone number
  "1800CALLGYM" of an ACTIVE member, and the predicate is false.
\<close>

theorem matchesFilter_counterexample:
  "\<not> matchesFilter ''call'' ''all'' ''all''
       \<lparr> mId = ''m3'', name = ''Asha Rai'', age = 30, gender = ''FEMALE'',
         email = ''asha@example.com'', phone = ''1800CALLGYM'', membershipType = ''ONE_MONTH'',
         expiryDate = 1707776000000, status = ''ACTIVE'', profilePicture = None,
         joinDate = 1680000000000 \<rparr> \<and>
   includes_str (toLowerCase (phone
       \<lparr> mId = ''m3'', name = ''Asha Rai'', age = 30, gender = ''FEMALE'',
         email = ''asha@example.com'', phone = ''1800CALLGYM'', membershipType = ''ONE_MONTH'',
         expiryDate = 1707776000000, status = ''ACTIVE'', profilePicture = None,
         joinDate = 1680000000000 \<rparr>)) (toLowerCase ''call'') \<and>
   status \<lparr> mId = ''m3'', name = ''Asha Rai'', age = 30, gender = ''FEMALE'',
         email = ''asha@example.com'', phone = ''1800CALLGYM'', membershipType = ''ONE_MONTH'',
         expiryDate = 1707776000000, status = ''ACTIVE'', profilePicture = None,
         joinDate = 1680000000000 \<rparr> \<noteq> ''ARCHIVED''"
  by code_simp

text \<open>
  C4, amended. The predicate of \<^verbatim>\<open>MemberManagement\<close> is true exactly when: the search
  string is empty, or occurs in the lower-cased name or email after lower-casing, or occurs
  as typed in the phone number; and the selector is "all" and the member is not ARCHIVED,
  or it is "active", "inactive", "expiring" or "archived" and the status is ACTIVE,
  INACTIVE, EXPIRING_SOON or ARCHIVED respectively, or it is any other value; and the
  membership selector is "all" or equal to the member's membership type.
\<close>

theorem matchesFilter_iff:
  "matchesFilter s sel mt m \<longleftrightarrow>
     (s = [] \<or> (\<exists>p q. toLowerCase (name m) = p @ toLowerCase s @ q) \<or>
        (\<exists>p q. toLowerCase (email m) = p @ toLowerCase s @ q) \<or>
        (\<exists>p q. phone m = p @ s @ q)) \<and>
     (sel = ''all'' \<and> status m \<noteq> ''ARCHIVED'' \<or>
      sel = ''active'' \<and> status m = ''ACTIVE'' \<or>
      sel = ''inactive'' \<and> status m = ''INACTIVE'' \<or>
      sel = ''expiring'' \<and> status m = ''EXPIRING_SOON'' \<or>
      sel = ''archived'' \<and> status m = ''ARCHIVED'' \<or>
      sel \<notin> set [''all'', ''active'', ''inactive'', ''expiring'', ''archived'']) \<and>
     (mt = ''all'' \<or> membershipType m = mt)"
proof -
  have search: "(includes_str (toLowerCase (name m)) (toLowerCase s) \<or>
          includes_str (toLowerCase (email m)) (toLowerCase s) \<or>
          includes_str (phone m) s) =
        (s = [] \<or> (\<exists>p q. toLowerCase (name m) = p @ toLowerCase s @ q) \<or>
        (\<exists>p q. toLowerCase (email m) = p @ toLowerCase s @ q) \<or>
        (\<exists>p q. phone m = p @ s @ q))"
  proof (cases "s = []")
    case True
    then show ?thesis by (simp add: includes_str_empty)
  next
    case False
    then show ?thesis by (simp add: includes_str_iff)
  qed
  have st: "(if sel = ''all'' then status m \<noteq> ''ARCHIVED''
             else if sel = ''active'' then status m = ''ACTIVE''
             else if sel = ''inactive'' then status m = ''INACTIVE''
             else if sel = ''expiring'' then status m = ''EXPIRING_SOON''
             else if sel = ''archived'' then status m = ''ARCHIVED''
             else True) =
     (sel = ''all'' \<and> status m \<noteq> ''ARCHIVED'' \<or>
      sel = ''active'' \<and> status m = ''ACTIVE'' \<or>
      sel = ''inactive'' \<and> status m = ''INACTIVE'' \<or>
      sel = ''expiring'' \<and> status m = ''EXPIRING_SOON'' \<or>
      sel = ''archived'' \<and> status m = ''ARCHIVED'' \<or>
      sel \<notin> set [''all'', ''active'', ''inactive'', ''expiring'', ''archived''])"
    by auto
  show ?thesis
    unfolding matchesFilter_def Let_def search st by (rule refl)
qed

theorem matchesFilter_iff_witness:
  "matchesFilter ''RAI'' ''active'' ''ONE_MONTH''
       \<lparr> mId = ''m3'', name = ''Asha Rai'', age = 30, gender = ''FEMALE'',
         email = ''asha@example.com'', phone = ''1800CALLGYM'', membershipType = ''ONE_MONTH'',
         expiryDate = 1707776000000, status = ''ACTIVE'', profilePicture = None,
         joinDate = 1680000000000 \<rparr> \<and>
   (\<exists>p q. toLowerCase ''Asha Rai'' = p @ toLowerCase ''RAI'' @ q) \<and>
   ''active'' \<in> set [''all'', ''active'', ''inactive'', ''expiring'', ''archived'']"
proof -
  let ?m = "\<lparr> mId = ''m3'', name = ''Asha Rai'', age = 30, gender = ''FEMALE'',
         email = ''asha@example.com'', phone = ''1800CALLGYM'', membershipType = ''ONE_MONTH'',
         expiryDate = 1707776000000, status = ''ACTIVE'', profilePicture = None,
         joinDate = 1680000000000 \<rparr>"
  have l: "toLowerCase ''Asha Rai'' = ''asha '' @ toLowerCase ''RAI'' @ []"
    by code_simp
  then have e: "\<exists>p q. toLowerCase ''Asha Rai'' = p @ toLowerCase ''RAI'' @ q"
    by blast
  have s: "''active'' \<in> set [''all'', ''active'', ''inactive'', ''expiring'', ''archived'']"
    by simp
  have "matchesFilter ''RAI'' ''active'' ''ONE_MONTH'' ?m"
    using e by (simp add: matchesFilter_iff [of "''RAI''" "''active''" "''ONE_MONTH''" ?m])
  with e s show ?thesis
    by simp
qed

subsection \<open>Server-side and client-side filtering\<close>

lemma search_agree:
  assumes "\<forall>c\<in>set (phone m). \<not> isLetter c"
  shows "(if s = [] then True
          else containsInsensitive (name m) s \<or> containsInsensitive (email m) s \<or>
               containsInsensitive (phone m) s) =
         (includes_str (toLowerCase (name m)) (toLowerCase s) \<or>
          includes_str (toLowerCase (email m)) (toLowerCase s) \<or>
          includes_str (phone m) s)"
proof (cases "s = []")
  case True
  then show ?thesis by (simp add: includes_str_empty)
next
  case False
  then show ?thesis
    using phone_match_case [OF assms, of s] by (simp add: containsInsensitive_def)
qed

lemma getMembers_Inr:
  "getMembers ms q = Inr xs \<Longrightarrow>
   xs = filter (membersWhere (map_option trim (search q)) (status_q q) (membershipType_q q)) ms"
  by (simp add: getMembers_def Let_def split: if_splits)

lemma getMembers_Inr_membershipType:
  "getMembers ms q = Inr xs \<Longrightarrow> membershipType_q q = Some mt \<Longrightarrow> mt \<noteq> []"
  by (auto simp: getMembers_def Let_def validateMembersQuery_def optionalCheck_def
      queryMembershipTypes_def split: if_splits)

lemma getMembers_Inr_status:
  "getMembers ms q = Inr xs \<Longrightarrow> status_q q = Some st \<Longrightarrow> st \<noteq> []"
  by (auto simp: getMembers_def Let_def validateMembersQuery_def optionalCheck_def
      statuses_def split: if_splits)

text \<open>
  C3, as stated, fails. On a table holding one ARCHIVED member, with an empty search and
  both selectors "all", \<^verbatim>\<open>MemberManagement\<close> shows nothing, the \<^verbatim>\<open>Index\<close> page shows the
  member, and the server returns the member when no status is sent and rejects the
  request when the selector strings themselves are sent.
\<close>

theorem client_server_filters_counterexample:
  "filteredMembers
     [\<lparr> mId = ''m2'', name = ''Bikash Lama'', age = 41, gender = ''MALE'',
        email = ''bikash@example.com'', phone = ''9811111111'', membershipType = ''ONE_YEAR'',
        expiryDate = 1717776000000, status = ''ARCHIVED'', profilePicture = None,
        joinDate = 1685000000000 \<rparr>] '''' ''all'' ''all'' = [] \<and>
   filteredMembersIndex
     [\<lparr> mId = ''m2'', name = ''Bikash Lama'', age = 41, gender = ''MALE'',
        email = ''bikash@example.com'', phone = ''9811111111'', membershipType = ''ONE_YEAR'',
        expiryDate = 1717776000000, status = ''ARCHIVED'', profilePicture = None,
        joinDate = 1685000000000 \<rparr>] '''' ''all'' ''all'' =
     [\<lparr> mId = ''m2'', name = ''Bikash Lama'', age = 41, gender = ''MALE'',
        email = ''bikash@example.com'', phone = ''9811111111'', membershipType = ''ONE_YEAR'',
        expiryDate = 1717776000000, status = ''ARCHIVED'', profilePicture = None,
        joinDate = 1685000000000 \<rparr>] \<and>
   getMembers
     [\<lparr> mId = ''m2'', name = ''Bikash Lama'', age = 41, gender = ''MALE'',
        email = ''bikash@example.com'', phone = ''9811111111'', membershipType = ''ONE_YEAR'',
        expiryDate = 1717776000000, status = ''ARCHIVED'', profilePicture = None,
        joinDate = 1685000000000 \<rparr>]
     \<lparr> page = None, limit = None, search = Some '''', status_q = None,
       membershipType_q = None, sortBy = None, sortOrder = None \<rparr> =
     Inr [\<lparr> mId = ''m2'', name = ''Bikash Lama'', age = 41, gender = ''MALE'',
        email = ''bikash@example.com'', phone = ''9811111111'', membershipType = ''ONE_YEAR'',
        expiryDate = 1717776000000, status = ''ARCHIVED'', profilePicture = None,
        joinDate = 1685000000000 \<rparr>] \<and>
   getMembers
     [\<lparr> mId = ''m2'', name = ''Bikash Lama'', age = 41, gender = ''MALE'',
        email = ''bikash@example.com'', phone = ''9811111111'', membershipType = ''ONE_YEAR'',
        expiryDate = 1717776000000, status = ''ARCHIVED'', profilePicture = None,
        joinDate = 1685000000000 \<rparr>]
     \<lparr> page = None, limit = None, search = Some '''', status_q = Some ''all'',
       membershipType_q = Some ''all'', sortBy = None, sortOrder = None \<rparr> =
     Inl (BadRequestError ''Invalid value'')"
  by (simp add: filteredMembers_def matchesFilter_def filteredMembersIndex_def
      getMembers_def validateMembersQuery_def optionalCheck_def statuses_def
      queryMembershipTypes_def firstError_def membersWhere_def trim_def
      toLowerCase_def)

text \<open>
  C3, amended. Let the search string have no white space at its ends, let no stored phone
  number contain a letter, and let the request pass the query validator. With the
  selector of \<^verbatim>\<open>MemberManagement\<close> sent as the stored status it stands for (nothing for
  "all") and the membership selector sent unless it is "all", the client filter selects
  the server's rows for a specific status and the server's rows without the ARCHIVED ones
  for "all". The filter of the \<^verbatim>\<open>Index\<close> page, whose selector is sent as it is (nothing
  for "all"), selects the server's rows.
\<close>

theorem client_server_filters:
  assumes t: "trim s = s"
    and ph: "\<forall>m\<in>set ms. \<forall>c\<in>set (phone m). \<not> isLetter c"
  shows "(\<forall>xs. sel \<in> set [''all'', ''active'', ''inactive'', ''expiring'', ''archived''] \<and>
            getMembers ms \<lparr> page = pg, limit = lm, search = Some s,
                            status_q = statusParam sel,
                            membershipType_q = (if mt = ''all'' then None else Some mt),
                            sortBy = sb, sortOrder = so \<rparr> = Inr xs \<longrightarrow>
            filteredMembers ms s sel mt =
              (if sel = ''all'' then filter (\<lambda>m. status m \<noteq> ''ARCHIVED'') xs else xs)) \<and>
         (\<forall>ys. getMembers ms \<lparr> page = pg, limit = lm, search = Some s,
                            status_q = (if sel = ''all'' then None else Some sel),
                            membershipType_q = (if mt = ''all'' then None else Some mt),
                            sortBy = sb, sortOrder = so \<rparr> = Inr ys \<longrightarrow>
            filteredMembersIndex ms s sel mt = ys)"
proof (intro conjI allI impI)
  fix xs
  let ?q = "\<lparr> page = pg, limit = lm, search = Some s, status_q = statusParam sel,
              membershipType_q = (if mt = ''all'' then None else Some mt),
              sortBy = sb, sortOrder = so \<rparr>"
  assume a: "sel \<in> set [''all'', ''active'', ''inactive'', ''expiring'', ''archived''] \<and>
             getMembers ms ?q = Inr xs"
  then have g: "getMembers ms ?q = Inr xs" by blast
  have mt: "mt \<noteq> ''all'' \<Longrightarrow> mt \<noteq> []"
    using getMembers_Inr_membershipType [OF g, of mt] by simp
  have xs: "xs = filter (membersWhere (Some s) (statusParam sel)
                           (if mt = ''all'' then None else Some mt)) ms"
    using getMembers_Inr [OF g] t by simp
  have "filter (matchesFilter s sel mt) ms =
        filter (\<lambda>m. membersWhere (Some s) (statusParam sel)
                       (if mt = ''all'' then None else Some mt) m \<and>
                     (if sel = ''all'' then status m \<noteq> ''ARCHIVED'' else True)) ms"
  proof (rule filter_cong [OF refl])
    fix m assume "m \<in> set ms"
    then have p: "\<forall>c\<in>set (phone m). \<not> isLetter c" using ph by blast
    from a have "sel = ''all'' \<or> sel = ''active'' \<or> sel = ''inactive'' \<or> sel = ''expiring'' \<or>
                 sel = ''archived''" by simp
    then show "matchesFilter s sel mt m =
          (membersWhere (Some s) (statusParam sel) (if mt = ''all'' then None else Some mt) m \<and>
           (if sel = ''all'' then status m \<noteq> ''ARCHIVED'' else True))"
      using mt search_agree [OF p, of s]
      by (elim disjE) (auto simp: matchesFilter_def membersWhere_def statusParam_def Let_def)
  qed
  then show "filteredMembers ms s sel mt =
              (if sel = ''all'' then filter (\<lambda>m. status m \<noteq> ''ARCHIVED'') xs else xs)"
    unfolding xs filteredMembers_def by (simp add: conj_commute)
next
  fix ys
  let ?q = "\<lparr> page = pg, limit = lm, search = Some s,
              status_q = (if sel = ''all'' then None else Some sel),
              membershipType_q = (if mt = ''all'' then None else Some mt),
              sortBy = sb, sortOrder = so \<rparr>"
  assume g: "getMembers ms ?q = Inr ys"
  have mt: "mt \<noteq> ''all'' \<Longrightarrow> mt \<noteq> []"
    using getMembers_Inr_membershipType [OF g, of mt] by simp
  have sel: "sel \<noteq> ''all'' \<Longrightarrow> sel \<noteq> []"
    using getMembers_Inr_status [OF g, of sel] by simp
  have ys: "ys = filter (membersWhere (Some s) (if sel = ''all'' then None else Some sel)
                           (if mt = ''all'' then None else Some mt)) ms"
    using getMembers_Inr [OF g] t by simp
  show "filteredMembersIndex ms s sel mt = ys"
    unfolding ys filteredMembersIndex_def
  proof (rule filter_cong [OF refl])
    fix m assume "m \<in> set ms"
    then have p: "\<forall>c\<in>set (phone m). \<not> isLetter c" using ph by blast
    show "((includes_str (toLowerCase (name m)) (toLowerCase s) \<or>
            includes_str (toLowerCase (email m)) (toLowerCase s) \<or>
            includes_str (phone m) s) \<and>
           (sel = ''all'' \<or> status m = sel) \<and>
           (mt = ''all'' \<or> membershipType m = mt)) =
          membersWhere (Some s) (if sel = ''all'' then None else Some sel)
            (if mt = ''all'' then None else Some mt) m"
      using mt sel search_agree [OF p, of s]
      by (auto simp: membersWhere_def)
  qed
qed

theorem client_server_filters_witness:
  "trim ''98'' = ''98'' \<and>
   list_all (\<lambda>m. list_all (\<lambda>c. \<not> isLetter c) (phone m))
     [\<lparr> mId = ''m1'', name = ''Asha Rai'', age = 30, gender = ''FEMALE'',
        email = ''asha@example.com'', phone = ''9800000000'', membershipType = ''SIX_MONTH'',
        expiryDate = 1707776000000, status = ''ACTIVE'', profilePicture = None,
        joinDate = 1680000000000 \<rparr>,
      \<lparr> mId = ''m2'', name = ''Bikash Lama'', age = 41, gender = ''MALE'',
        email = ''bikash@example.com'', phone = ''9811111111'', membershipType = ''ONE_YEAR'',
        expiryDate = 1717776000000, status = ''ARCHIVED'', profilePicture = None,
        joinDate = 1685000000000 \<rparr>] \<and>
   filteredMembers
     [\<lparr> mId = ''m1'', name = ''Asha Rai'', age = 30, gender = ''FEMALE'',
        email = ''asha@example.com'', phone = ''9800000000'', membershipType = ''SIX_MONTH'',
        expiryDate = 1707776000000, status = ''ACTIVE'', profilePicture = None,
        joinDate = 1680000000000 \<rparr>,
      \<lparr> mId = ''m2'', name = ''Bikash Lama'', age = 41, gender = ''MALE'',
        email = ''bikash@example.com'', phone = ''9811111111'', membershipType = ''ONE_YEAR'',
        expiryDate = 1717776000000, status = ''ARCHIVED'', profilePicture = None,
        joinDate = 1685000000000 \<rparr>] ''98'' ''all'' ''all'' =
     [\<lparr> mId = ''m1'', name = ''Asha Rai'', age = 30, gender = ''FEMALE'',
        email = ''asha@example.com'', phone = ''9800000000'', membershipType = ''SIX_MONTH'',
        expiryDate = 1707776000000, status = ''ACTIVE'', profilePicture = None,
        joinDate = 1680000000000 \<rparr>] \<and>
   filteredMembersIndex
     [\<lparr> mId = ''m1'', name = ''Asha Rai'', age = 30, gender = ''FEMALE'',
        email = ''asha@example.com'', phone = ''9800000000'', membershipType = ''SIX_MONTH'',
        expiryDate = 1707776000000, status = ''ACTIVE'', profilePicture = None,
        joinDate = 1680000000000 \<rparr>,
      \<lparr> mId = ''m2'', name = ''Bikash Lama'', age = 41, gender = ''MALE'',
        email = ''bikash@example.com'', phone = ''9811111111'', membershipType = ''ONE_YEAR'',
        expiryDate = 1717776000000, status = ''ARCHIVED'', profilePicture = None,
        joinDate = 1685000000000 \<rparr>] ''98'' ''ARCHIVED'' ''all'' =
     [\<lparr> mId = ''m2'', name = ''Bikash Lama'', age = 41, gender = ''MALE'',
        email = ''bikash@example.com'', phone = ''9811111111'', membershipType = ''ONE_YEAR'',
        expiryDate = 1717776000000, status = ''ARCHIVED'', profilePicture = None,
        joinDate = 1685000000000 \<rparr>]"
proof -
  let ?a = "\<lparr> mId = ''m1'', name = ''Asha Rai'', age = 30, gender = ''FEMALE'',
        email = ''asha@example.com'', phone = ''9800000000'', membershipType = ''SIX_MONTH'',
        expiryDate = 1707776000000, status = ''ACTIVE'', profilePicture = None,
        joinDate = 1680000000000 \<rparr>"
  let ?b = "\<lparr> mId = ''m2'', name = ''Bikash Lama'', age = 41, gender = ''MALE'',
        email = ''bikash@example.com'', phone = ''9811111111'', membershipType = ''ONE_YEAR'',
        expiryDate = 1717776000000, status = ''ARCHIVED'', profilePicture = None,
        joinDate = 1685000000000 \<rparr>"
  have t: "trim ''98'' = ''98''"
    by (simp add: trim_def isSpace_def)
  have ph: "\<forall>m\<in>set [?a, ?b]. \<forall>c\<in>set (phone m). \<not> isLetter c"
    by (simp add: isLetter_def)
  have g1: "getMembers [?a, ?b]
              \<lparr> page = None, limit = None, search = Some ''98'', status_q = statusParam ''all'',
                membershipType_q = (if ''all'' = ''all'' then None else Some ''all''),
                sortBy = None, sortOrder = None \<rparr> = Inr [?a, ?b]"
    by code_simp
  have g2: "getMembers [?a, ?b]
              \<lparr> page = None, limit = None, search = Some ''98'',
                status_q = (if ''ARCHIVED'' = ''all'' then None else Some ''ARCHIVED''),
                membershipType_q = (if ''all'' = ''all'' then None else Some ''all''),
                sortBy = None, sortOrder = None \<rparr> = Inr [?b]"
    by code_simp
  note mm = client_server_filters [OF t ph, where sel = "''all''" and mt = "''all''"
      and pg = None and lm = None and sb = None and so = None, THEN conjunct1, THEN spec,
      of "[?a, ?b]"]
  note ix = client_server_filters [OF t ph, where sel = "''ARCHIVED''" and mt = "''all''"
      and pg = None and lm = None and sb = None and so = None, THEN conjunct2, THEN spec,
      of "[?b]"]
  have r1: "filteredMembers [?a, ?b] ''98'' ''all'' ''all'' = [?a]"
    using mm g1 by simp
  have r2: "filteredMembersIndex [?a, ?b] ''98'' ''ARCHIVED'' ''all'' = [?b]"
    using ix g2 by simp
  from ph have "list_all (\<lambda>m. list_all (\<lambda>c. \<not> isLetter c) (phone m)) [?a, ?b]"
    by (simp only: list_all_iff)
  with t r1 r2 show ?thesis
    by blast
qed

subsection \<open>The membership type in the list query\<close>

text \<open>
  C10. \<^verbatim>\<open>GET /members\<close> with \<^verbatim>\<open>membershipType=SIX_MONTH\<close> is answered with a BadRequest
  error whatever the other parameters are, and with the message \<^verbatim>\<open>Invalid value\<close> when
  it is the only parameter: the accepted list holds the value with a leading space. The
  validators of create and update raise no membership-type error for \<^verbatim>\<open>SIX_MONTH\<close>.
\<close>

theorem six_month_query_rejected:
  "(\<exists>msg. getMembers ms (q \<lparr> membershipType_q := Some ''SIX_MONTH'' \<rparr>) = Inl (BadRequestError msg)) \<and>
   getMembers ms \<lparr> page = None, limit = None, search = None, status_q = None,
                   membershipType_q = Some ''SIX_MONTH'', sortBy = None, sortOrder = None \<rparr>
     = Inl (BadRequestError ''Invalid value'') \<and>
   ''Invalid membership type'' \<notin> set (validateMember isEmail (b \<lparr> membershipType_b := ''SIX_MONTH'' \<rparr>)) \<and>
   ''Invalid membership type'' \<notin>
      set (validateMemberUpdate isEmail (u \<lparr> membershipType_u := Some ''SIX_MONTH'' \<rparr>))"
proof (intro conjI)
  have "validateMembersQuery (q \<lparr> membershipType_q := Some ''SIX_MONTH'' \<rparr>) \<noteq> []"
    by (simp add: validateMembersQuery_def queryMembershipTypes_def optionalCheck_def)
  then show "\<exists>msg. getMembers ms (q \<lparr> membershipType_q := Some ''SIX_MONTH'' \<rparr>)
               = Inl (BadRequestError msg)"
    using firstError_BadRequest by (simp add: getMembers_def Let_def)
next
  show "getMembers ms \<lparr> page = None, limit = None, search = None, status_q = None,
                   membershipType_q = Some ''SIX_MONTH'', sortBy = None, sortOrder = None \<rparr>
     = Inl (BadRequestError ''Invalid value'')"
    by (simp add: getMembers_def validateMembersQuery_def queryMembershipTypes_def
        optionalCheck_def firstError_def)
next
  show "''Invalid membership type'' \<notin>
          set (validateMember isEmail (b \<lparr> membershipType_b := ''SIX_MONTH'' \<rparr>))"
    by (simp add: validateMember_def membershipTypes_def split: dateField.splits)
next
  show "''Invalid membership type'' \<notin>
      set (validateMemberUpdate isEmail (u \<lparr> membershipType_u := Some ''SIX_MONTH'' \<rparr>))"
    by (simp add: validateMemberUpdate_def membershipTypes_def optionalCheck_def
        split: dateField.splits option.splits)
qed

subsection \<open>Payments: marking as paid\<close>

text \<open>
  C6. \<^verbatim>\<open>PATCH /payments/:id/mark-paid\<close> on a payment whose status is PAID answers with a
  BadRequest error and returns the table as it was.
\<close>

theorem mark_paid_twice_rejected:
  assumes "findPayment ps i = Some p" and "pStatus p = ''PAID''"
  shows "markPaid now ps i notes' =
           (ps, Inl (BadRequestError (if i = [] then ''Payment ID is required''
                                      else ''Payment is already marked as paid'')))"
  using assms by (simp add: markPaid_def)

theorem mark_paid_twice_rejected_witness:
  "findPayment [\<lparr> pId = ''p1'', memberId = ''m1'', amount = 2500, paymentType = ''MEMBERSHIP'',
                  pStatus = ''PAID'', dueDate = 1700000000000, paidAt = Some 1699990000000,
                  pNotes = None \<rparr>] ''p1'' =
     Some \<lparr> pId = ''p1'', memberId = ''m1'', amount = 2500, paymentType = ''MEMBERSHIP'',
            pStatus = ''PAID'', dueDate = 1700000000000, paidAt = Some 1699990000000,
            pNotes = None \<rparr> \<and>
   markPaid 1700000500000
     [\<lparr> pId = ''p1'', memberId = ''m1'', amount = 2500, paymentType = ''MEMBERSHIP'',
        pStatus = ''PAID'', dueDate = 1700000000000, paidAt = Some 1699990000000,
        pNotes = None \<rparr>] ''p1'' (Some ''cash'') =
     ([\<lparr> pId = ''p1'', memberId = ''m1'', amount = 2500, paymentType = ''MEMBERSHIP'',
        pStatus = ''PAID'', dueDate = 1700000000000, paidAt = Some 1699990000000,
        pNotes = None \<rparr>], Inl (BadRequestError ''Payment is already marked as paid''))"
proof -
  let ?p = "\<lparr> pId = ''p1'', memberId = ''m1'', amount = 2500, paymentType = ''MEMBERSHIP'',
        pStatus = ''PAID'', dueDate = 1700000000000, paidAt = Some 1699990000000,
        pNotes = None \<rparr>"
  have f: "findPayment [?p] ''p1'' = Some ?p"
    by (simp add: findPayment_def)
  have s: "pStatus ?p = ''PAID''"
    by simp
  from mark_paid_twice_rejected [OF f s, of 1700000500000 "Some ''cash''"] f show ?thesis
    by simp
qed

subsection \<open>Payments: the paid timestamp\<close>

text \<open>
  Create answers with a payment that is PENDING or OVERDUE and has no paid timestamp;
  mark-paid sets both; an update to PAID sets the timestamp when there is none.
\<close>

lemma postPayment_invariant:
  "snd (postPayment now newId ms ps b) = Inr p \<Longrightarrow> paidAtIffPaid p"
  by (auto simp: postPayment_def Let_def paidAtIffPaid_def split: if_splits option.splits)

lemma markPaid_invariant:
  "snd (markPaid now ps i notes') = Inr p \<Longrightarrow> paidAtIffPaid p"
  by (auto simp: markPaid_def Let_def paidAtIffPaid_def split: if_splits option.splits)

lemma putPayment_paid_has_paidAt:
  assumes "findPayment ps i = Some p0" and "paidAtIffPaid p0"
    and "snd (putPayment now ps i u) = Inr p" and "pStatus p = ''PAID''"
  shows "paidAt p \<noteq> None"
  using assms
  by (auto simp: putPayment_def Let_def paidAtIffPaid_def applyPaymentUpdate_def orElse_def
      split: if_splits option.splits dateField.splits)

text \<open>
  The update handler marks a payment OVERDUE when the new due date is past unless the
  request itself says PAID; it does not read the stored status, so a PAID payment whose
  due date alone is edited becomes OVERDUE and keeps its paid timestamp.
\<close>

lemma paid_becomes_overdue:
  "putPayment 1700000500000
     [\<lparr> pId = ''p1'', memberId = ''m1'', amount = 2500, paymentType = ''MEMBERSHIP'',
        pStatus = ''PAID'', dueDate = 1700000000000, paidAt = Some 1699990000000,
        pNotes = None \<rparr>] ''p1''
     \<lparr> amount_pu = None, paymentType_pu = None, status_pu = None,
       dueDate_pu = ISODate 1700000100000, notes_pu = None \<rparr> =
     ([\<lparr> pId = ''p1'', memberId = ''m1'', amount = 2500, paymentType = ''MEMBERSHIP'',
        pStatus = ''OVERDUE'', dueDate = 1700000100000, paidAt = Some 1699990000000,
        pNotes = None \<rparr>],
      Inr \<lparr> pId = ''p1'', memberId = ''m1'', amount = 2500, paymentType = ''MEMBERSHIP'',
        pStatus = ''OVERDUE'', dueDate = 1700000100000, paidAt = Some 1699990000000,
        pNotes = None \<rparr>)"
  by (simp add: putPayment_def validatePaymentUpdate_def optionalCheck_def Let_def
      findPayment_def updatePayment_def applyPaymentUpdate_def orElse_def)

text \<open>
  C5. The update handler sets \<^verbatim>\<open>paidAt\<close> when the status becomes PAID and never clears
  it: a PAID payment updated with status PENDING keeps its paid timestamp, so the
  invariant holds before the request and fails after it.
\<close>

theorem paidAt_survives_unpaying:
  "putPayment 1700000500000
     [\<lparr> pId = ''p1'', memberId = ''m1'', amount = 2500, paymentType = ''MEMBERSHIP'',
        pStatus = ''PAID'', dueDate = 1700000000000, paidAt = Some 1699990000000,
        pNotes = None \<rparr>] ''p1''
     \<lparr> amount_pu = None, paymentType_pu = None, status_pu = Some ''PENDING'',
       dueDate_pu = NoDate, notes_pu = None \<rparr> =
     ([\<lparr> pId = ''p1'', memberId = ''m1'', amount = 2500, paymentType = ''MEMBERSHIP'',
        pStatus = ''PENDING'', dueDate = 1700000000000, paidAt = Some 1699990000000,
        pNotes = None \<rparr>],
      Inr \<lparr> pId = ''p1'', memberId = ''m1'', amount = 2500, paymentType = ''MEMBERSHIP'',
        pStatus = ''PENDING'', dueDate = 1700000000000, paidAt = Some 1699990000000,
        pNotes = None \<rparr>) \<and>
   paidAtIffPaid \<lparr> pId = ''p1'', memberId = ''m1'', amount = 2500, paymentType = ''MEMBERSHIP'',
        pStatus = ''PAID'', dueDate = 1700000000000, paidAt = Some 1699990000000,
        pNotes = None \<rparr> \<and>
   \<not> paidAtIffPaid \<lparr> pId = ''p1'', memberId = ''m1'', amount = 2500,
        paymentType = ''MEMBERSHIP'', pStatus = ''PENDING'', dueDate = 1700000000000,
        paidAt = Some 1699990000000, pNotes = None \<rparr>"
  by (simp add: putPayment_def validatePaymentUpdate_def optionalCheck_def paymentStatuses_def
      Let_def findPayment_def updatePayment_def applyPaymentUpdate_def orElse_def
      paidAtIffPaid_def)

subsection \<open>Monthly statistics\<close>

lemma find_key_map:
  "find (\<lambda>s. fst s = k) (map (\<lambda>j. (j, f j)) xs) = (if k \<in> set xs then Some (k, f k) else None)"
  by (induction xs) auto

lemma find_groupCount:
  "find (\<lambda>s. fst s = k) (groupCount ks) =
     (if k \<in> set ks then Some (k, count_list ks k) else None)"
  by (simp add: groupCount_def find_key_map)

lemma find_groupSum_None:
  "k \<notin> fst ` set rows \<Longrightarrow> find (\<lambda>s. fst s = k) (groupSum rows) = None"
  by (simp add: groupSum_def find_key_map)

lemma lookup_groupCount:
  "(case find (\<lambda>s. fst s = k) (groupCount ks) of Some s \<Rightarrow> snd s | None \<Rightarrow> 0) = count_list ks k"
  by (simp add: find_groupCount)

lemma count_list_map:
  "count_list (map f xs) k = length (filter (\<lambda>x. f x = k) xs)"
  by (induction xs) auto

lemma sum_count_months:
  assumes "set ks \<subseteq> {1..12}"
  shows "sum_list (map (count_list ks) [1..<13]) = length (ks :: nat list)"
proof -
  have "sum_list (map (count_list ks) [1..<13]) = sum (count_list ks) (set [1..<13])"
    by (rule sum_list_distinct_conv_sum_set) simp
  also have "set [1..<13] = {1..12::nat}"
    by auto
  also have "sum (count_list ks) {1..12} = length ks"
    using assms by (rule sum_count_set) simp
  finally show ?thesis .
qed

lemma nth_formattedStats:
  assumes "k < 12"
  shows "formattedStats y a b c ! k =
     \<lparr> month = monthNames ! k, monthNumber = k + 1,
       newMembers = (case find (\<lambda>s. fst s = k + 1) a of Some s \<Rightarrow> snd s | None \<Rightarrow> 0),
       revenue = (case find (\<lambda>s. fst s = k + 1) b of Some s \<Rightarrow> snd s | None \<Rightarrow> 0),
       checkIns = (case find (\<lambda>s. fst s = k + 1) c of Some s \<Rightarrow> NaN | None \<Rightarrow> Num 0),
       year = y \<rparr>"
proof -
  have l: "length monthNames = 12"
    by (simp add: monthNames_def)
  with assms have "enumerate 0 monthNames ! k = (k, monthNames ! k)"
    by (simp add: nth_enumerate_eq)
  with assms l show ?thesis
    by (simp add: formattedStats_def Let_def)
qed

lemma length_formattedStats: "length (formattedStats y a b c) = 12"
  by (simp add: formattedStats_def monthNames_def)

lemma map_newMembers_formattedStats:
  "map newMembers (formattedStats y (groupCount ks) b c) = map (count_list ks) [1..<13]"
proof (rule nth_equalityI)
  show "length (map newMembers (formattedStats y (groupCount ks) b c)) =
        length (map (count_list ks) [1..<13])"
    by (simp add: length_formattedStats)
next
  fix k assume "k < length (map newMembers (formattedStats y (groupCount ks) b c))"
  then have k: "k < 12" by (simp add: length_formattedStats)
  then show "map newMembers (formattedStats y (groupCount ks) b c) ! k =
             map (count_list ks) [1..<13] ! k"
    by (simp add: length_formattedStats nth_formattedStats lookup_groupCount)
qed

lemma nth_monthlyStatsFor:
  assumes "k < 12"
  shows "monthlyStatsFor yearOf monthOf y ms ps cs ! k =
     \<lparr> month = monthNames ! k, monthNumber = k + 1,
       newMembers = (case find (\<lambda>s. fst s = k + 1) (monthlyStatsQuery yearOf monthOf y ms) of
                       Some s \<Rightarrow> snd s | None \<Rightarrow> 0),
       revenue = (case find (\<lambda>s. fst s = k + 1) (monthlyRevenueQuery yearOf monthOf y ps) of
                    Some s \<Rightarrow> snd s | None \<Rightarrow> 0),
       checkIns = (case find (\<lambda>s. fst s = k + 1) (monthlyCheckInsQuery yearOf monthOf y cs) of
                     Some s \<Rightarrow> NaN | None \<Rightarrow> Num 0),
       year = y \<rparr>"
  unfolding monthlyStatsFor_def using assms by (rule nth_formattedStats)

lemma monthly_length: "length (monthlyStatsFor yearOf monthOf y ms ps cs) = 12"
  by (simp add: monthlyStatsFor_def length_formattedStats)

lemma monthly_names:
  "map month (monthlyStatsFor yearOf monthOf y ms ps cs) = monthNames"
proof (rule nth_equalityI)
  show "length (map month (monthlyStatsFor yearOf monthOf y ms ps cs)) = length monthNames"
    by (simp add: monthly_length monthNames_def)
next
  fix k assume "k < length (map month (monthlyStatsFor yearOf monthOf y ms ps cs))"
  then have "k < 12" by (simp add: monthly_length)
  then show "map month (monthlyStatsFor yearOf monthOf y ms ps cs) ! k = monthNames ! k"
    by (simp add: monthly_length nth_monthlyStatsFor)
qed

lemma monthly_numbers:
  "map monthNumber (monthlyStatsFor yearOf monthOf y ms ps cs) = [1..<13]"
proof (rule nth_equalityI)
  show "length (map monthNumber (monthlyStatsFor yearOf monthOf y ms ps cs)) = length [1..<13]"
    by (simp add: monthly_length)
next
  fix k assume "k < length (map monthNumber (monthlyStatsFor yearOf monthOf y ms ps cs))"
  then have "k < 12" by (simp add: monthly_length)
  then show "map monthNumber (monthlyStatsFor yearOf monthOf y ms ps cs) ! k = [1..<13] ! k"
    by (simp add: monthly_length nth_monthlyStatsFor)
qed

lemma monthly_newMembers:
  assumes "k < 12"
  shows "newMembers (monthlyStatsFor yearOf monthOf y ms ps cs ! k) =
         length (filter (\<lambda>m. yearOf (joinDate m) = y \<and> monthOf (joinDate m) = k + 1) ms)"
  using assms
  by (simp add: nth_monthlyStatsFor monthlyStatsQuery_def lookup_groupCount count_list_map
      conj_commute)

lemma monthly_revenue_zero:
  assumes "k < 12"
    and "\<forall>p\<in>set ps. \<forall>t. paidAt p = Some t \<longrightarrow>
           \<not> (yearOf t = y \<and> monthOf t = k + 1 \<and> pStatus p = ''PAID'')"
  shows "revenue (monthlyStatsFor yearOf monthOf y ms ps cs ! k) = 0"
proof -
  have "k + 1 \<notin> fst ` set (concat (map (\<lambda>p. case paidAt p of
                                  None \<Rightarrow> []
                                | Some t \<Rightarrow> if yearOf t = y \<and> pStatus p = ''PAID''
                                            then [(monthOf t, amount p)] else []) ps))"
    using assms(2) by (auto split: option.splits if_splits) metis
  then have "find (\<lambda>s. fst s = k + 1) (monthlyRevenueQuery yearOf monthOf y ps) = None"
    unfolding monthlyRevenueQuery_def by (rule find_groupSum_None)
  then show ?thesis
    using assms(1) by (simp add: nth_monthlyStatsFor)
qed

lemma monthly_checkIns_zero:
  assumes "k < 12"
    and "\<forall>c\<in>set cs. \<not> (yearOf (checkInAt c) = y \<and> monthOf (checkInAt c) = k + 1)"
  shows "checkIns (monthlyStatsFor yearOf monthOf y ms ps cs ! k) = Num 0"
proof -
  have "k + 1 \<notin> set (map (\<lambda>c. monthOf (checkInAt c))
                        (filter (\<lambda>c. yearOf (checkInAt c) = y) cs))"
    using assms(2) by auto
  then have "find (\<lambda>s. fst s = k + 1) (monthlyCheckInsQuery yearOf monthOf y cs) = None"
    unfolding monthlyCheckInsQuery_def by (simp only: find_groupCount if_False)
  then show ?thesis
    using assms(1) by (simp add: nth_monthlyStatsFor)
qed

lemma monthly_sum:
  assumes "\<forall>m\<in>set ms. 1 \<le> monthOf (joinDate m) \<and> monthOf (joinDate m) \<le> 12"
  shows "sum_list (map newMembers (monthlyStatsFor yearOf monthOf y ms ps cs)) =
         length (filter (\<lambda>m. yearOf (joinDate m) = y) ms)"
proof -
  let ?ks = "map (\<lambda>m. monthOf (joinDate m)) (filter (\<lambda>m. yearOf (joinDate m) = y) ms)"
  have "set ?ks \<subseteq> {1..12}"
    using assms by auto
  then have "sum_list (map (count_list ?ks) [1..<13]) = length ?ks"
    by (rule sum_count_months)
  then show ?thesis
    by (simp add: monthlyStatsFor_def monthlyStatsQuery_def map_newMembers_formattedStats)
qed

lemma monthly_empty:
  assumes "b \<in> set (monthlyStatsFor yearOf monthOf y [] [] [])"
  shows "newMembers b = 0 \<and> revenue b = 0 \<and> checkIns b = Num 0"
proof -
  from assms obtain k where k: "k < 12" and b: "b = monthlyStatsFor yearOf monthOf y [] [] [] ! k"
    by (metis in_set_conv_nth monthly_length)
  show ?thesis
    unfolding b using k
    by (simp add: monthly_newMembers monthly_revenue_zero monthly_checkIns_zero)
qed

text \<open>
  C9. For every reference year \<open>y\<close> and all tables, the aggregation gives twelve buckets,
  named Jan to Dec and numbered 1 to 12 in that order. The bucket of month \<open>k + 1\<close> counts
  the members who joined in that month of \<open>y\<close>, so it is zero when there are none; its
  revenue is zero when no PAID payment was paid in that month, and its check-in count is
  zero when no check-in falls in it. When the database's month numbers lie between 1 and
  12, the new-member counts add up to the number of members who joined in \<open>y\<close>. With empty
  tables every bucket is zero. The handler runs the aggregation for the current year when
  no year is sent and for a year it accepts (2020 to 2030) otherwise.
\<close>

theorem monthly_stats_buckets:
  "(let bs = monthlyStatsFor yearOf monthOf y ms ps cs in
     length bs = 12 \<and>
     map month bs = [''Jan'', ''Feb'', ''Mar'', ''Apr'', ''May'', ''Jun'',
                     ''Jul'', ''Aug'', ''Sep'', ''Oct'', ''Nov'', ''Dec''] \<and>
     map monthNumber bs = [1..<13] \<and>
     (\<forall>k<12. newMembers (bs ! k) =
        length (filter (\<lambda>m. yearOf (joinDate m) = y \<and> monthOf (joinDate m) = k + 1) ms)) \<and>
     (\<forall>k<12. (\<forall>p\<in>set ps. \<forall>t. paidAt p = Some t \<longrightarrow>
                 \<not> (yearOf t = y \<and> monthOf t = k + 1 \<and> pStatus p = ''PAID'')) \<longrightarrow>
              revenue (bs ! k) = 0) \<and>
     (\<forall>k<12. (\<forall>c\<in>set cs. \<not> (yearOf (checkInAt c) = y \<and> monthOf (checkInAt c) = k + 1)) \<longrightarrow>
              checkIns (bs ! k) = Num 0) \<and>
     ((\<forall>m\<in>set ms. 1 \<le> monthOf (joinDate m) \<and> monthOf (joinDate m) \<le> 12) \<longrightarrow>
        sum_list (map newMembers bs) = length (filter (\<lambda>m. yearOf (joinDate m) = y) ms))) \<and>
   (\<forall>b\<in>set (monthlyStatsFor yearOf monthOf y [] [] []).
      newMembers b = 0 \<and> revenue b = 0 \<and> checkIns b = Num 0) \<and>
   getMonthlyStats yearOf monthOf currentYear None ms ps cs =
     Inr (monthlyStatsFor yearOf monthOf currentYear ms ps cs) \<and>
   (2020 \<le> y \<and> y \<le> 2030 \<longrightarrow>
      getMonthlyStats yearOf monthOf currentYear (Some y) ms ps cs =
        Inr (monthlyStatsFor yearOf monthOf y ms ps cs))"
proof -
  have names: "map month (monthlyStatsFor yearOf monthOf y ms ps cs) =
                 [''Jan'', ''Feb'', ''Mar'', ''Apr'', ''May'', ''Jun'',
                  ''Jul'', ''Aug'', ''Sep'', ''Oct'', ''Nov'', ''Dec'']"
    using monthly_names [of yearOf monthOf y ms ps cs] by (simp only: monthNames_def)
  have h1: "getMonthlyStats yearOf monthOf currentYear None ms ps cs =
     Inr (monthlyStatsFor yearOf monthOf currentYear ms ps cs)"
    by (simp add: getMonthlyStats_def optionalCheck_def orElse_def)
  have h2: "2020 \<le> y \<and> y \<le> 2030 \<longrightarrow>
      getMonthlyStats yearOf monthOf currentYear (Some y) ms ps cs =
        Inr (monthlyStatsFor yearOf monthOf y ms ps cs)"
    by (simp add: getMonthlyStats_def optionalCheck_def orElse_def)
  show ?thesis
    unfolding Let_def
    using names h1 h2 monthly_length [of yearOf monthOf y ms ps cs]
      monthly_numbers [of yearOf monthOf y ms ps cs]
      monthly_newMembers [of _ yearOf monthOf y ms ps cs]
      monthly_revenue_zero [of _ ps yearOf y monthOf ms cs]
      monthly_checkIns_zero [of _ cs yearOf y monthOf ms ps]
      monthly_sum [of ms monthOf yearOf y ps cs]
      monthly_empty [of _ yearOf monthOf y]
    by blast
qed

text \<open>
  Two members who joined in the first and the fourth month of 2024, in a calendar of
  365-day years and twelve equal months that stands in for the database's; and
  \<^verbatim>\<open>GET /dashboard/monthly-stats?year=2024\<close> on empty tables.
\<close>

theorem monthly_stats_buckets_witness:
  "list_all (\<lambda>m. 1 \<le> nat (joinDate m mod 31536000000 div 2628000000) + 1 \<and>
                 nat (joinDate m mod 31536000000 div 2628000000) + 1 \<le> 12)
     [\<lparr> mId = ''m1'', name = ''Asha Rai'', age = 30, gender = ''FEMALE'',
        email = ''asha@example.com'', phone = ''9800000000'', membershipType = ''SIX_MONTH'',
        expiryDate = 1718712000000, status = ''ACTIVE'', profilePicture = None,
        joinDate = 1702944000000 \<rparr>,
      \<lparr> mId = ''m2'', name = ''Bikash Lama'', age = 41, gender = ''MALE'',
        email = ''bikash@example.com'', phone = ''9811111111'', membershipType = ''ONE_YEAR'',
        expiryDate = 1742364000000, status = ''ACTIVE'', profilePicture = None,
        joinDate = 1710828000000 \<rparr>] \<and>
   sum_list (map newMembers
     (monthlyStatsFor (\<lambda>t. 1970 + t div 31536000000)
        (\<lambda>t. nat (t mod 31536000000 div 2628000000) + 1) 2024
        [\<lparr> mId = ''m1'', name = ''Asha Rai'', age = 30, gender = ''FEMALE'',
        email = ''asha@example.com'', phone = ''9800000000'', membershipType = ''SIX_MONTH'',
        expiryDate = 1718712000000, status = ''ACTIVE'', profilePicture = None,
        joinDate = 1702944000000 \<rparr>,
      \<lparr> mId = ''m2'', name = ''Bikash Lama'', age = 41, gender = ''MALE'',
        email = ''bikash@example.com'', phone = ''9811111111'', membershipType = ''ONE_YEAR'',
        expiryDate = 1742364000000, status = ''ACTIVE'', profilePicture = None,
        joinDate = 1710828000000 \<rparr>] [] [])) = 2 \<and>
   revenue (monthlyStatsFor (\<lambda>t. 1970 + t div 31536000000)
        (\<lambda>t. nat (t mod 31536000000 div 2628000000) + 1) 2024
        [\<lparr> mId = ''m1'', name = ''Asha Rai'', age = 30, gender = ''FEMALE'',
        email = ''asha@example.com'', phone = ''9800000000'', membershipType = ''SIX_MONTH'',
        expiryDate = 1718712000000, status = ''ACTIVE'', profilePicture = None,
        joinDate = 1702944000000 \<rparr>,
      \<lparr> mId = ''m2'', name = ''Bikash Lama'', age = 41, gender = ''MALE'',
        email = ''bikash@example.com'', phone = ''9811111111'', membershipType = ''ONE_YEAR'',
        expiryDate = 1742364000000, status = ''ACTIVE'', profilePicture = None,
        joinDate = 1710828000000 \<rparr>] [] [] ! 3) = 0 \<and>
   checkIns (monthlyStatsFor (\<lambda>t. 1970 + t div 31536000000)
        (\<lambda>t. nat (t mod 31536000000 div 2628000000) + 1) 2024
        [\<lparr> mId = ''m1'', name = ''Asha Rai'', age = 30, gender = ''FEMALE'',
        email = ''asha@example.com'', phone = ''9800000000'', membershipType = ''SIX_MONTH'',
        expiryDate = 1718712000000, status = ''ACTIVE'', profilePicture = None,
        joinDate = 1702944000000 \<rparr>,
      \<lparr> mId = ''m2'', name = ''Bikash Lama'', age = 41, gender = ''MALE'',
        email = ''bikash@example.com'', phone = ''9811111111'', membershipType = ''ONE_YEAR'',
        expiryDate = 1742364000000, status = ''ACTIVE'', profilePicture = None,
        joinDate = 1710828000000 \<rparr>] [] [] ! 3) = Num 0 \<and>
   getMonthlyStats (\<lambda>t. 1970 + t div 31536000000)
        (\<lambda>t. nat (t mod 31536000000 div 2628000000) + 1) 2025 (Some 2024) [] [] [] =
     Inr (monthlyStatsFor (\<lambda>t. 1970 + t div 31536000000)
        (\<lambda>t. nat (t mod 31536000000 div 2628000000) + 1) 2024 [] [] []) \<and>
   list_all (\<lambda>b. newMembers b = 0 \<and> revenue b = 0 \<and> checkIns b = Num 0)
     (monthlyStatsFor (\<lambda>t. 1970 + t div 31536000000)
        (\<lambda>t. nat (t mod 31536000000 div 2628000000) + 1) 2024 [] [] [])"
proof -
  let ?Y = "\<lambda>t::int. 1970 + t div 31536000000"
  let ?M = "\<lambda>t::int. nat (t mod 31536000000 div 2628000000) + 1"
  let ?ms = "[\<lparr> mId = ''m1'', name = ''Asha Rai'', age = 30, gender = ''FEMALE'',
        email = ''asha@example.com'', phone = ''9800000000'', membershipType = ''SIX_MONTH'',
        expiryDate = 1718712000000, status = ''ACTIVE'', profilePicture = None,
        joinDate = 1702944000000 \<rparr>,
      \<lparr> mId = ''m2'', name = ''Bikash Lama'', age = 41, gender = ''MALE'',
        email = ''bikash@example.com'', phone = ''9811111111'', membershipType = ''ONE_YEAR'',
        expiryDate = 1742364000000, status = ''ACTIVE'', profilePicture = None,
        joinDate = 1710828000000 \<rparr>]"
  note b = monthly_stats_buckets [where yearOf = ?Y and monthOf = ?M and y = 2024
      and ms = ?ms and ps = "[]" and cs = "[]" and currentYear = 2025, unfolded Let_def]
  have r: "\<forall>m\<in>set ?ms. 1 \<le> ?M (joinDate m) \<and> ?M (joinDate m) \<le> 12"
    by simp
  have n: "length (filter (\<lambda>m. ?Y (joinDate m) = 2024) ?ms) = 2"
    by simp
  have k: "(3::nat) < 12"
    by simp
  have y: "(2020::int) \<le> 2024 \<and> (2024::int) \<le> 2030"
    by simp
  have e: "\<forall>b\<in>set (monthlyStatsFor ?Y ?M 2024 [] [] []).
             newMembers b = 0 \<and> revenue b = 0 \<and> checkIns b = Num 0"
    using monthly_stats_buckets [where yearOf = ?Y and monthOf = ?M and y = 2024]
    by blast
  have s: "sum_list (map newMembers (monthlyStatsFor ?Y ?M 2024 ?ms [] [])) = 2"
    using b r n by presburger
  have v: "revenue (monthlyStatsFor ?Y ?M 2024 ?ms [] [] ! 3) = 0"
    using b k by simp
  have c: "checkIns (monthlyStatsFor ?Y ?M 2024 ?ms [] [] ! 3) = Num 0"
    using b k by simp
  have g: "getMonthlyStats ?Y ?M 2025 (Some 2024) [] [] [] = Inr (monthlyStatsFor ?Y ?M 2024 [] [] [])"
    using monthly_stats_buckets [where yearOf = ?Y and monthOf = ?M and y = 2024
      and ms = "[]" and ps = "[]" and cs = "[]" and currentYear = 2025] y
    by blast
  from r have r': "list_all (\<lambda>m. 1 \<le> ?M (joinDate m) \<and> ?M (joinDate m) \<le> 12) ?ms"
    by (simp only: list_all_iff)
  from e have e': "list_all (\<lambda>b. newMembers b = 0 \<and> revenue b = 0 \<and> checkIns b = Num 0)
                     (monthlyStatsFor ?Y ?M 2024 [] [] [])"
    by (simp only: list_all_iff)
  from r' s v c g e' show ?thesis
    by blast
qed

end
